theory Spec2Isabelle
  imports Complex_Main
begin

section \<open>Python values shared by all modules\<close>

text \<open>
  Python floats and ints are modelled as exact real numbers: every arithmetic operation
  of the source is the corresponding operation on \<open>real\<close>. Exceptions are values of the
  type \<open>error\<close>; a function that can raise returns \<open>error + 'a\<close>.
\<close>

datatype error =
    ValueError string
  | KeyError string
  | IndexError
  | ZeroDivisionError
  | AttributeError
  | HTTPException nat string

text \<open>
  Python's \<open>round(x, n)\<close> rounds to the nearest multiple of \<open>10 ^ -n\<close>, a tie going to
  the even neighbour.
\<close>

definition round_half_even :: "real \<Rightarrow> int" where
  "round_half_even x =
     (let f = \<lfloor>x\<rfloor>; d = x - of_int f
      in if d < 1 / 2 then f
         else if 1 / 2 < d then f + 1
         else if even f then f else f + 1)"

definition py_round :: "real \<Rightarrow> nat \<Rightarrow> real" where
  "py_round x n = of_int (round_half_even (x * 10 ^ n)) / 10 ^ n"

text \<open>An exception raised by a step is raised by the whole computation.\<close>

definition bind_err :: "error + 'a \<Rightarrow> ('a \<Rightarrow> error + 'b) \<Rightarrow> error + 'b" where
  "bind_err r f = (case r of Inl x \<Rightarrow> Inl x | Inr v \<Rightarrow> f v)"

text \<open>\<open>str(n)\<close> for a non-negative integer, as used by the f-strings.\<close>

fun str_nat :: "nat \<Rightarrow> string" where
  "str_nat n =
     (if n < 10 then [''0123456789'' ! n]
      else str_nat (n div 10) @ [''0123456789'' ! (n mod 10)])"

declare str_nat.simps [simp del]

section \<open>grid.py\<close>

record bounds =
  north :: real
  south :: real
  east :: real
  west :: real

record GridCell =
  g_id :: string
  g_region :: string
  g_row :: nat
  g_col :: nat
  g_center_lat :: real
  g_center_lng :: real
  g_bounds :: bounds
  area_km2 :: real

record ForestRegion =
  r_id :: string
  r_name :: string
  r_description :: string
  r_center_lat :: real
  r_center_lng :: real
  r_bounds :: bounds
  grid_rows :: int
  grid_cols :: int

text \<open>The registry, in insertion order; \<open>grid_rows\<close> and \<open>grid_cols\<close> take their defaults 3 and 4.\<close>

definition FOREST_REGIONS_items :: "(string \<times> ForestRegion) list" where
  "FOREST_REGIONS_items =
    [(''amazon'',
      \<lparr>r_id = ''amazon'', r_name = ''Amazon Rainforest'',
       r_description = ''Brazil - World's largest tropical rainforest'',
       r_center_lat = - 3.4653, r_center_lng = - 62.2159,
       r_bounds = \<lparr>north = - 2, south = - 5, east = - 60, west = - 65\<rparr>,
       grid_rows = 3, grid_cols = 4\<rparr>),
     (''california'',
      \<lparr>r_id = ''california'', r_name = ''California Forests'',
       r_description = ''USA - Sierra Nevada and coastal forests'',
       r_center_lat = 37.5, r_center_lng = - 119.5,
       r_bounds = \<lparr>north = 39, south = 36, east = - 118, west = - 121\<rparr>,
       grid_rows = 3, grid_cols = 4\<rparr>),
     (''australia'',
      \<lparr>r_id = ''australia'', r_name = ''Australian Bushland'',
       r_description = ''Australia - Eastern forest regions'',
       r_center_lat = - 33.5, r_center_lng = 150.5,
       r_bounds = \<lparr>north = - 32, south = - 35, east = 152, west = 149\<rparr>,
       grid_rows = 3, grid_cols = 4\<rparr>),
     (''mediterranean'',
      \<lparr>r_id = ''mediterranean'', r_name = ''Mediterranean Forests'',
       r_description = ''Southern Europe - Portugal, Spain, Greece'',
       r_center_lat = 38.5, r_center_lng = - 8,
       r_bounds = \<lparr>north = 40, south = 37, east = - 6, west = - 10\<rparr>,
       grid_rows = 3, grid_cols = 4\<rparr>)]"

definition FOREST_REGIONS :: "string \<rightharpoonup> ForestRegion" where
  "FOREST_REGIONS = map_of FOREST_REGIONS_items"

definition radians :: "real \<Rightarrow> real" where
  "radians x = x * pi / 180"

definition calculate_grid_area :: "bounds \<Rightarrow> real" where
  "calculate_grid_area b =
     (let lat_diff = \<bar>north b - south b\<bar>;
          lng_diff = \<bar>east b - west b\<bar>;
          avg_lat = (north b + south b) / 2;
          km_per_lng = 111 * cos (radians avg_lat)
      in lat_diff * 111 * lng_diff * km_per_lng)"

text \<open>The body of the two nested loops of \<open>generate_grids_for_region\<close>: one cell.\<close>

definition make_cell :: "string \<Rightarrow> ForestRegion \<Rightarrow> real \<Rightarrow> real \<Rightarrow> nat \<Rightarrow> nat \<Rightarrow> GridCell" where
  "make_cell region_id region lat_step lng_step row col =
     (let grid_id = region_id @ ''_grid_'' @ str_nat row @ ''_'' @ str_nat col;
          n = north (r_bounds region) - (real row * lat_step);
          s = n - lat_step;
          w = west (r_bounds region) + (real col * lng_step);
          e = w + lng_step;
          cell_bounds = \<lparr>north = n, south = s, east = e, west = w\<rparr>;
          center_lat = (n + s) / 2;
          center_lng = (e + w) / 2;
          area = calculate_grid_area cell_bounds
      in \<lparr>g_id = grid_id, g_region = region_id, g_row = row, g_col = col,
          g_center_lat = center_lat, g_center_lng = center_lng,
          g_bounds = cell_bounds, area_km2 = py_round area 2\<rparr>)"

definition generate_grids_for_region :: "string \<Rightarrow> error + GridCell list" where
  "generate_grids_for_region region_id =
     (case FOREST_REGIONS region_id of
        None \<Rightarrow> Inl (ValueError (''Unknown region: '' @ region_id))
      | Some region \<Rightarrow>
          if grid_rows region = 0 \<or> grid_cols region = 0 then Inl ZeroDivisionError
          else
            let lat_step = (north (r_bounds region) - south (r_bounds region)) / real_of_int (grid_rows region);
                lng_step = (east (r_bounds region) - west (r_bounds region)) / real_of_int (grid_cols region)
            in Inr (concat (map (\<lambda>row. map (\<lambda>col. make_cell region_id region lat_step lng_step row col)
                                          [0..<nat (grid_cols region)])
                                [0..<nat (grid_rows region)])))"

section \<open>weather.py\<close>

text \<open>
  A weather dictionary holds numbers under some keys and text under others; the two
  kinds of entries are kept in two maps.
\<close>

record weather_dict =
  numeric :: "string \<rightharpoonup> real"
  textual :: "string \<rightharpoonup> string"

text \<open>
  What the process cannot compute by itself is a parameter: the credential read from the
  environment, the live service (the outcome of the n-th request; \<open>None\<close> stands for any
  exception, non-success status or malformed payload), Python's \<open>hash\<close> on strings (one
  fixed function per process) and the pseudo-random generator (\<open>random.seed\<close> and
  \<open>random.random\<close> on a generator state of type \<open>'g\<close>).
\<close>

record api_response =
  main_temp :: real
  main_humidity :: real
  wind_speed_ms :: real
  rain_1h :: "real option"
  weather_desc :: "string option"

record 'g env =
  OPENWEATHER_API_KEY :: string
  http_get :: "nat \<Rightarrow> real \<Rightarrow> real \<Rightarrow> api_response option"
  hash_fn :: "string \<Rightarrow> int"
  seed_fn :: "int \<Rightarrow> 'g"
  random_fn :: "'g \<Rightarrow> real \<times> 'g"

text \<open>
  The mutable state: the global generator of the \<open>random\<close> module and the requests sent to
  the live service so far.
\<close>

record 'g world =
  rng :: 'g
  api_calls :: "(real \<times> real) list"

definition FWI_RANGES :: "string \<rightharpoonup> real \<times> real" where
  "FWI_RANGES = map_of
     [(''ffmc'', (40, 96)), (''dmc'', (1, 30)), (''dc'', (5, 400)),
      (''isi'', (0, 15)), (''bui'', (1, 40)), (''fwi'', (0, 25))]"

definition fetch_weather_from_api ::
  "'g env \<Rightarrow> real \<Rightarrow> real \<Rightarrow> 'g world \<Rightarrow> weather_dict option \<times> 'g world" where
  "fetch_weather_from_api e lat lng w =
     (if OPENWEATHER_API_KEY e = [] then (None, w)
      else
        let w' = w\<lparr>api_calls := api_calls w @ [(lat, lng)]\<rparr>
        in case http_get e (length (api_calls w)) lat lng of
             None \<Rightarrow> (None, w')
           | Some data \<Rightarrow>
               (Some \<lparr>numeric = map_of
                        [(''temperature'', main_temp data),
                         (''humidity'', main_humidity data),
                         (''wind_speed'', wind_speed_ms data * 3.6),
                         (''rainfall'', (case rain_1h data of None \<Rightarrow> 0 | Some r \<Rightarrow> r))],
                      textual = map_of
                        [(''source'', ''openweather_api''),
                         (''weather_description'',
                          (case weather_desc data of None \<Rightarrow> ''Unknown'' | Some d \<Rightarrow> d))]\<rparr>,
                w'))"

text \<open>\<open>random.uniform(a, b)\<close> is \<open>a + (b - a) * random()\<close>.\<close>

definition uniform :: "'g env \<Rightarrow> real \<Rightarrow> real \<Rightarrow> 'g \<Rightarrow> real \<times> 'g" where
  "uniform e a b g = (let (u, g') = random_fn e g in (a + (b - a) * u, g'))"

text \<open>
  The four values of \<open>generate_simulated_weather\<close> before rounding, and the generator state
  left behind. The generator is seeded first, so the state found on entry is discarded.
\<close>

definition simulate_raw :: "'g env \<Rightarrow> real \<Rightarrow> string \<Rightarrow> (real \<times> real \<times> real \<times> real) \<times> 'g" where
  "simulate_raw e lat grid_id =
     (let seed = hash_fn e grid_id mod 10000;
          g0 = seed_fn e seed;
          lat_factor = 1 - (\<bar>lat\<bar> / 90);
          base_temp = 20 + (lat_factor * 20);
          (u1, g1) = uniform e (- 5) 10 g0;
          temperature = max 15 (min 45 (base_temp + u1));
          (u2, g2) = uniform e (- 10) 10 g1;
          humidity = max 20 (min 95 (90 - (temperature - 20) * 2 + u2));
          (wind_speed, g3) = uniform e 5 25 g2;
          (rainfall, g4) = (if humidity > 60 then uniform e 0 5 g3 else (0, g3))
      in ((temperature, humidity, wind_speed, rainfall), g4))"

definition generate_simulated_weather ::
  "'g env \<Rightarrow> real \<Rightarrow> real \<Rightarrow> string \<Rightarrow> 'g world \<Rightarrow> weather_dict \<times> 'g world" where
  "generate_simulated_weather e lat lng grid_id w =
     (let ((temperature, humidity, wind_speed, rainfall), g) = simulate_raw e lat grid_id
      in (\<lparr>numeric = map_of
              [(''temperature'', py_round temperature 1),
               (''humidity'', py_round humidity 1),
               (''wind_speed'', py_round wind_speed 1),
               (''rainfall'', py_round rainfall 1)],
           textual = map_of
              [(''source'', ''simulated''),
               (''weather_description'', ''Simulated conditions'')]\<rparr>,
          w\<lparr>rng := g\<rparr>))"

text \<open>The six assignments of \<open>generate_fire_weather_indices\<close>, one definition each.\<close>

definition ffmc_of :: "real \<Rightarrow> real \<Rightarrow> real \<Rightarrow> real" where
  "ffmc_of temp humidity rain =
     (let ffmc_base = 60 + (temp - 25) * 1.5 - (humidity - 50) * 0.3
      in max 40 (min 96 (ffmc_base - rain * 3)))"

definition dmc_of :: "real \<Rightarrow> real \<Rightarrow> real" where
  "dmc_of temp humidity = max 1 (min 30 (10 + (temp - 25) * 0.5 - humidity * 0.1))"

definition dc_of :: "real \<Rightarrow> real \<Rightarrow> real" where
  "dc_of temp rain = max 5 (min 400 (150 + (temp - 25) * 5 - rain * 10))"

definition isi_of :: "real \<Rightarrow> real \<Rightarrow> real" where
  "isi_of ffmc wind = max 0 (min 15 ((ffmc - 60) * 0.15 + wind * 0.2))"

definition bui_of :: "real \<Rightarrow> real \<Rightarrow> real" where
  "bui_of dmc dc = max 1 (min 40 (dmc * 0.8 + dc * 0.02))"

text \<open>\<open>(isi * bui) ** 0.5\<close>: the product is never negative here, so the power is the square root.\<close>

definition fwi_of :: "real \<Rightarrow> real \<Rightarrow> real" where
  "fwi_of isi bui = max 0 (min 25 (sqrt (isi * bui)))"

definition subscript :: "(string \<rightharpoonup> 'a) \<Rightarrow> string \<Rightarrow> error + 'a" where
  "subscript d k = (case d k of None \<Rightarrow> Inl (KeyError k) | Some v \<Rightarrow> Inr v)"

definition generate_fire_weather_indices :: "weather_dict \<Rightarrow> error + (string \<rightharpoonup> real)" where
  "generate_fire_weather_indices weather =
     bind_err (subscript (numeric weather) ''temperature'') (\<lambda>temp.
     bind_err (subscript (numeric weather) ''humidity'') (\<lambda>humidity.
     bind_err (subscript (numeric weather) ''wind_speed'') (\<lambda>wind.
     bind_err (subscript (numeric weather) ''rainfall'') (\<lambda>rain.
        let ffmc = ffmc_of temp humidity rain;
            dmc = dmc_of temp humidity;
            dc = dc_of temp rain;
            isi = isi_of ffmc wind;
            bui = bui_of dmc dc;
            fwi = fwi_of isi bui
        in Inr (map_of
             [(''ffmc'', py_round ffmc 1), (''dmc'', py_round dmc 1),
              (''dc'', py_round dc 1), (''isi'', py_round isi 1),
              (''bui'', py_round bui 1), (''fwi'', py_round fwi 1)])))))"

definition get_weather_for_grid ::
  "'g env \<Rightarrow> real \<Rightarrow> real \<Rightarrow> string \<Rightarrow> 'g world \<Rightarrow> (error + weather_dict) \<times> 'g world" where
  "get_weather_for_grid e lat lng grid_id w =
     (let (fetched, w1) = fetch_weather_from_api e lat lng w;
          (weather, w2) = (case fetched of
                             None \<Rightarrow> generate_simulated_weather e lat lng grid_id w1
                           | Some d \<Rightarrow> (d, w1))
      in case generate_fire_weather_indices weather of
           Inl x \<Rightarrow> (Inl x, w2)
         | Inr fwi_indices \<Rightarrow>
             (Inr \<lparr>numeric = ((numeric weather ++ fwi_indices)(''lat'' \<mapsto> lat))(''lng'' \<mapsto> lng),
                   textual = (textual weather)(''grid_id'' \<mapsto> grid_id)\<rparr>,
              w2))"

section \<open>model.py\<close>

definition FEATURE_COLUMNS :: "string list" where
  "FEATURE_COLUMNS =
     [''Temperature'', ''RH'', ''Ws'', ''Rain'', ''FFMC'', ''DMC'', ''DC'', ''ISI'', ''BUI'', ''FWI'']"

definition WEATHER_TO_FEATURE :: "(string \<times> string) list" where
  "WEATHER_TO_FEATURE =
     [(''temperature'', ''Temperature''), (''humidity'', ''RH''), (''wind_speed'', ''Ws''),
      (''rainfall'', ''Rain''), (''ffmc'', ''FFMC''), (''dmc'', ''DMC''), (''dc'', ''DC''),
      (''isi'', ''ISI''), (''bui'', ''BUI''), (''fwi'', ''FWI'')]"

definition RISK_THRESHOLDS :: "string \<rightharpoonup> real \<times> real" where
  "RISK_THRESHOLDS = map_of [(''low'', (0, 33)), (''medium'', (34, 66)), (''high'', (67, 100))]"

text \<open>
  The trained classifier and the scaler are opaque: the classifier maps one scaled feature
  row to its row of class probabilities and exposes its importances, the scaler maps a
  feature row to a scaled one.
\<close>

record classifier =
  predict_proba :: "real list \<Rightarrow> real list"
  feature_importances :: "real list"

record FireRiskModel =
  model :: "classifier option"
  scaler :: "(real list \<Rightarrow> real list) option"
  is_loaded :: bool

text \<open>
  \<open>__init__\<close> followed by \<open>_load_model\<close>. A file is absent, present but failing to load, or
  loaded. An exception in the middle leaves the fields assigned so far and clears
  \<open>is_loaded\<close>. The metadata is read here and used nowhere else, so it carries no content.
\<close>

datatype 'a artifact = Absent | Unreadable | Stored 'a

definition load_model ::
  "classifier artifact \<Rightarrow> (real list \<Rightarrow> real list) artifact \<Rightarrow> unit artifact \<Rightarrow> FireRiskModel" where
  "load_model model_file scaler_file metadata_file =
     (let init = \<lparr>model = None, scaler = None, is_loaded = False\<rparr>
      in if model_file \<noteq> Absent \<and> scaler_file \<noteq> Absent then
           (case model_file of
              Stored m \<Rightarrow>
                (case scaler_file of
                   Stored t \<Rightarrow>
                     (if metadata_file = Unreadable
                      then init\<lparr>model := Some m, scaler := Some t\<rparr>
                      else init\<lparr>model := Some m, scaler := Some t, is_loaded := True\<rparr>)
                 | _ \<Rightarrow> init\<lparr>model := Some m\<rparr>)
            | _ \<Rightarrow> init)
         else init)"

definition feature_defaults :: "string \<rightharpoonup> real" where
  "feature_defaults = map_of
     [(''Temperature'', 25), (''RH'', 50), (''Ws'', 10), (''Rain'', 0), (''FFMC'', 70),
      (''DMC'', 10), (''DC'', 100), (''ISI'', 5), (''BUI'', 15), (''FWI'', 10)]"

text \<open>\<open>d.get(k, default)\<close>.\<close>

definition get_default :: "(string \<rightharpoonup> 'a) \<Rightarrow> string \<Rightarrow> 'a \<Rightarrow> 'a" where
  "get_default d k dflt = (case d k of None \<Rightarrow> dflt | Some v \<Rightarrow> v)"

definition weather_to_features :: "weather_dict \<Rightarrow> real list" where
  "weather_to_features weather_data =
     map (\<lambda>feature_name.
            case find (\<lambda>(wk, fn). fn = feature_name) WEATHER_TO_FEATURE of
              Some (weather_key, _) \<Rightarrow>
                (case numeric weather_data weather_key of
                   Some v \<Rightarrow> v
                 | None \<Rightarrow> get_default feature_defaults feature_name 0)
            | None \<Rightarrow> get_default feature_defaults feature_name 0)
         FEATURE_COLUMNS"

definition calculate_fallback_risk :: "weather_dict \<Rightarrow> real" where
  "calculate_fallback_risk weather_data =
     (let temp = get_default (numeric weather_data) ''temperature'' 25;
          humidity = get_default (numeric weather_data) ''humidity'' 50;
          wind = get_default (numeric weather_data) ''wind_speed'' 10;
          rain = get_default (numeric weather_data) ''rainfall'' 0;
          fwi = get_default (numeric weather_data) ''fwi'' 10;
          risk = (temp - 20) * 2 + (80 - humidity) * 0.5 + wind * 1.5 + fwi * 3 - rain * 10
      in max 0 (min 100 risk))"

record prediction =
  risk_score :: real
  risk_category :: string
  probability :: real
  feature_importance :: "(string \<times> real) list"
  model_type :: string

text \<open>The first half of \<open>predict\<close>: unrounded score, probability and importances.\<close>

definition score_model :: "FireRiskModel \<Rightarrow> weather_dict \<Rightarrow> error + real \<times> real \<times> (string \<times> real) list" where
  "score_model self weather_data =
     (case (is_loaded self, model self) of
        (True, Some clf) \<Rightarrow>
          (case scaler self of
             None \<Rightarrow> Inl AttributeError
           | Some transform \<Rightarrow>
               let features = weather_to_features weather_data;
                   features_scaled = transform features;
                   proba = predict_proba clf features_scaled
               in bind_err (if length proba > 1 then Inr (proba ! 1)
                            else (case proba of [] \<Rightarrow> Inl IndexError | p # _ \<Rightarrow> Inr p))
                    (\<lambda>fire_probability.
                       Inr (fire_probability * 100, fire_probability,
                            zip FEATURE_COLUMNS (feature_importances clf))))
      | _ \<Rightarrow>
          let score = calculate_fallback_risk weather_data;
              fire_probability = score / 100
          in Inr (score, fire_probability,
                  [(''Temperature'', 0.18), (''RH'', 0.15), (''Ws'', 0.12), (''Rain'', 0.10),
                   (''FFMC'', 0.15), (''DMC'', 0.08), (''DC'', 0.07), (''ISI'', 0.06),
                   (''BUI'', 0.05), (''FWI'', 0.04)]))"

text \<open>The category chain of \<open>predict\<close>, on the rounded score.\<close>

definition categorize :: "real \<Rightarrow> error + string" where
  "categorize score =
     bind_err (subscript RISK_THRESHOLDS ''low'') (\<lambda>low.
       if score \<le> snd low then Inr ''Low''
       else bind_err (subscript RISK_THRESHOLDS ''medium'') (\<lambda>medium.
         if score \<le> snd medium then Inr ''Medium'' else Inr ''High''))"

definition predict :: "FireRiskModel \<Rightarrow> weather_dict \<Rightarrow> error + prediction" where
  "predict self weather_data =
     bind_err (score_model self weather_data) (\<lambda>(raw_score, fire_probability, importance).
       let score = py_round raw_score 1
       in bind_err (categorize score) (\<lambda>category.
            Inr \<lparr>risk_score = score,
                 risk_category = category,
                 probability = py_round fire_probability 4,
                 feature_importance = map (\<lambda>(k, v). (k, py_round v 4)) importance,
                 model_type = (if is_loaded self then ''Random Forest'' else ''Rule-based Fallback'')\<rparr>))"

text \<open>
  A contributing factor. The source renders the value into a string with its unit; the
  model keeps the number and the unit apart.
\<close>

record factor =
  factor_name :: string
  factor_value :: real
  factor_unit :: string
  impact :: string
  description :: string

record explanation =
  summary :: string
  contributing_factors :: "factor list"
  top_features :: "(string \<times> real) list"

text \<open>The five rule groups of \<open>explain_prediction\<close>, in the order they append.\<close>

definition temperature_factors :: "real \<Rightarrow> factor list" where
  "temperature_factors temp =
     (if temp > 35 then
        [\<lparr>factor_name = ''High Temperature'', factor_value = temp, factor_unit = ''C'',
          impact = ''critical'',
          description = ''Extreme heat significantly increases fire ignition and spread risk.''\<rparr>]
      else if temp > 30 then
        [\<lparr>factor_name = ''Elevated Temperature'', factor_value = temp, factor_unit = ''C'',
          impact = ''high'',
          description = ''Above-average temperatures increase vegetation dryness.''\<rparr>]
      else [])"

definition humidity_factors :: "real \<Rightarrow> factor list" where
  "humidity_factors humidity =
     (if humidity < 30 then
        [\<lparr>factor_name = ''Very Low Humidity'', factor_value = humidity, factor_unit = ''%'',
          impact = ''critical'',
          description = ''Low humidity allows fuels to dry rapidly, increasing flammability.''\<rparr>]
      else if humidity < 50 then
        [\<lparr>factor_name = ''Low Humidity'', factor_value = humidity, factor_unit = ''%'',
          impact = ''moderate'',
          description = ''Below-normal humidity contributes to drier conditions.''\<rparr>]
      else [])"

definition wind_factors :: "real \<Rightarrow> factor list" where
  "wind_factors wind =
     (if wind > 20 then
        [\<lparr>factor_name = ''High Wind Speed'', factor_value = wind, factor_unit = '' km/h'',
          impact = ''critical'',
          description = ''Strong winds can rapidly spread fire and make control difficult.''\<rparr>]
      else if wind > 15 then
        [\<lparr>factor_name = ''Moderate Wind'', factor_value = wind, factor_unit = '' km/h'',
          impact = ''moderate'',
          description = ''Wind assists fire spread and reduces humidity.''\<rparr>]
      else [])"

definition rain_factors :: "real \<Rightarrow> factor list" where
  "rain_factors rain =
     (if rain > 5 then
        [\<lparr>factor_name = ''Recent Rainfall'', factor_value = rain, factor_unit = '' mm'',
          impact = ''protective'',
          description = ''Recent precipitation reduces fire risk by moistening fuels.''\<rparr>]
      else if rain < 1 then
        [\<lparr>factor_name = ''No Recent Rain'', factor_value = rain, factor_unit = '' mm'',
          impact = ''moderate'',
          description = ''Dry conditions persist without recent precipitation.''\<rparr>]
      else [])"

definition fwi_factors :: "real \<Rightarrow> factor list" where
  "fwi_factors fwi =
     (if fwi > 15 then
        [\<lparr>factor_name = ''High Fire Weather Index'', factor_value = fwi, factor_unit = [],
          impact = ''critical'',
          description = ''FWI indicates severe fire weather conditions.''\<rparr>]
      else [])"

text \<open>The summary sentence, without the leading pictograph of the source.\<close>

definition generate_summary :: "string \<Rightarrow> factor list \<Rightarrow> string" where
  "generate_summary category factors =
     (let critical_count = length (filter (\<lambda>f. impact f = ''critical'') factors)
      in if category = ''High'' then
           ''HIGH RISK: '' @ str_nat critical_count
             @ '' critical factors detected. Immediate preventive action recommended.''
         else if category = ''Medium'' then
           ''MEDIUM RISK: Moderate fire conditions present. Enhanced monitoring advised.''
         else ''LOW RISK: Current conditions are favorable. Standard monitoring sufficient.'')"

text \<open>
  \<open>sorted(items, key = value, reverse = True)[:5]\<close>: a stable sort on the negated value
  keeps equal values in their original order, as Python's reversed stable sort does.
\<close>

definition explain_prediction :: "weather_dict \<Rightarrow> prediction \<Rightarrow> explanation" where
  "explain_prediction weather_data pred =
     (let importance = feature_importance pred;
          factors =
              temperature_factors (get_default (numeric weather_data) ''temperature'' 25)
            @ humidity_factors (get_default (numeric weather_data) ''humidity'' 50)
            @ wind_factors (get_default (numeric weather_data) ''wind_speed'' 10)
            @ rain_factors (get_default (numeric weather_data) ''rainfall'' 0)
            @ fwi_factors (get_default (numeric weather_data) ''fwi'' 10)
      in \<lparr>summary = generate_summary (risk_category pred) factors,
          contributing_factors = factors,
          top_features = take 5 (sort_key (\<lambda>x. - snd x) importance)\<rparr>)"

section \<open>main.py\<close>

record grid_prediction =
  p_grid_id :: string
  p_row :: nat
  p_col :: nat
  p_center :: "real \<times> real"
  p_bounds :: bounds
  p_area_km2 :: real
  p_risk_score :: real
  p_risk_category :: string
  p_probability :: real
  p_weather :: weather_dict
  p_model_type :: string

record region_summary =
  total_grids :: nat
  average_risk :: real
  max_risk :: real
  min_risk :: real
  high_risk_count :: nat
  medium_risk_count :: nat
  low_risk_count :: nat
  data_source_real :: nat
  data_source_simulated :: nat
  alert_level :: string

record region_response =
  success :: bool
  resp_region_id :: string
  resp_region_name :: string
  grids :: "grid_prediction list"
  resp_summary :: region_summary

record grid_explanation =
  ge_grid :: GridCell
  ge_weather :: weather_dict
  ge_prediction :: prediction
  ge_explanation :: explanation

text \<open>\<open>str\<close> of a list of strings, as the f-string of the not-found message prints it.\<close>

definition str_list :: "string list \<Rightarrow> string" where
  "str_list ks =
     ''['' @ concat (map (\<lambda>(i, k). (if i = 0 then [] else '', '') @ [CHR 0x27] @ k @ [CHR 0x27])
                        (zip [0..<length ks] ks)) @ '']''"

definition predict_for_grid ::
  "'g env \<Rightarrow> FireRiskModel \<Rightarrow> GridCell \<Rightarrow> 'g world \<Rightarrow> (error + grid_prediction) \<times> 'g world" where
  "predict_for_grid e self grid w =
     (let (res, w') = get_weather_for_grid e (g_center_lat grid) (g_center_lng grid) (g_id grid) w
      in (bind_err res (\<lambda>weather.
          bind_err (predict self weather) (\<lambda>pred.
            Inr \<lparr>p_grid_id = g_id grid, p_row = g_row grid, p_col = g_col grid,
                 p_center = (g_center_lat grid, g_center_lng grid),
                 p_bounds = g_bounds grid, p_area_km2 = area_km2 grid,
                 p_risk_score = risk_score pred, p_risk_category = risk_category pred,
                 p_probability = probability pred, p_weather = weather,
                 p_model_type = model_type pred\<rparr>)), w'))"

text \<open>
  The per-cell units of work, run in cell order; the results are collected in that order
  and the first exception ends the pass.
\<close>

fun gather :: "'g env \<Rightarrow> FireRiskModel \<Rightarrow> GridCell list \<Rightarrow> 'g world \<Rightarrow> (error + grid_prediction list) \<times> 'g world" where
  "gather e self [] w = (Inr [], w)"
| "gather e self (g # gs) w =
     (case predict_for_grid e self g w of
        (Inl x, w') \<Rightarrow> (Inl x, w')
      | (Inr p, w') \<Rightarrow>
          (case gather e self gs w' of
             (Inl x, w'') \<Rightarrow> (Inl x, w'')
           | (Inr ps, w'') \<Rightarrow> (Inr (p # ps), w'')))"

definition alert_of :: "string list \<Rightarrow> string" where
  "alert_of categories =
     (if count_list categories ''High'' \<ge> 3 then ''CRITICAL''
      else if count_list categories ''High'' \<ge> 1 then ''WARNING'' else ''NORMAL'')"

definition summarize :: "grid_prediction list \<Rightarrow> error + region_summary" where
  "summarize predictions =
     (let risk_scores = map p_risk_score predictions;
          categories = map p_risk_category predictions;
          sources = map (\<lambda>p. get_default (textual (p_weather p)) ''source'' ''unknown'') predictions;
          real_data_count = count_list sources ''openweather_api'';
          simulated_count = count_list sources ''simulated''
      in case risk_scores of
           [] \<Rightarrow> Inl ZeroDivisionError
         | r # rs \<Rightarrow>
             Inr \<lparr>total_grids = length predictions,
                  average_risk = py_round (sum_list risk_scores / real (length risk_scores)) 1,
                  max_risk = py_round (fold max rs r) 1,
                  min_risk = py_round (fold min rs r) 1,
                  high_risk_count = count_list categories ''High'',
                  medium_risk_count = count_list categories ''Medium'',
                  low_risk_count = count_list categories ''Low'',
                  data_source_real = real_data_count,
                  data_source_simulated = simulated_count,
                  alert_level = alert_of categories\<rparr>)"

definition predict_fire_risk ::
  "'g env \<Rightarrow> FireRiskModel \<Rightarrow> string \<Rightarrow> 'g world \<Rightarrow> (error + region_response) \<times> 'g world" where
  "predict_fire_risk e self region_id w =
     (case FOREST_REGIONS region_id of
        None \<Rightarrow>
          (Inl (HTTPException 404
                 (''Unknown region: '' @ region_id @ ''. Available: ''
                    @ str_list (map fst FOREST_REGIONS_items))), w)
      | Some region \<Rightarrow>
          (case generate_grids_for_region region_id of
             Inl x \<Rightarrow> (Inl x, w)
           | Inr cells \<Rightarrow>
               let (res, w') = gather e self cells w
               in (bind_err res (\<lambda>predictions.
                   bind_err (summarize predictions) (\<lambda>s.
                     Inr \<lparr>success = True, resp_region_id = region_id,
                          resp_region_name = r_name region,
                          grids = predictions, resp_summary = s\<rparr>)), w')))"

definition get_grid_explanation ::
  "'g env \<Rightarrow> FireRiskModel \<Rightarrow> string \<Rightarrow> string \<Rightarrow> 'g world \<Rightarrow> (error + grid_explanation) \<times> 'g world" where
  "get_grid_explanation e self region_id grid_id w =
     (case FOREST_REGIONS region_id of
        None \<Rightarrow> (Inl (HTTPException 404 (''Unknown region: '' @ region_id)), w)
      | Some region \<Rightarrow>
          (case generate_grids_for_region region_id of
             Inl x \<Rightarrow> (Inl x, w)
           | Inr cells \<Rightarrow>
               (case find (\<lambda>g. g_id g = grid_id) cells of
                  None \<Rightarrow> (Inl (HTTPException 404 (''Grid not found: '' @ grid_id)), w)
                | Some grid \<Rightarrow>
                    let (res, w') = get_weather_for_grid e (g_center_lat grid) (g_center_lng grid) (g_id grid) w
                    in (bind_err res (\<lambda>weather.
                        bind_err (predict self weather) (\<lambda>pred.
                          Inr \<lparr>ge_grid = grid, ge_weather = weather, ge_prediction = pred,
                               ge_explanation = explain_prediction weather pred\<rparr>)), w'))))"

section \<open>Concrete inputs\<close>

text \<open>Inputs on which the properties below are exercised.\<close>

text \<open>A region of twelve cells: three High, two Medium, seven Low.\<close>

definition example_cell :: "string \<Rightarrow> grid_prediction" where
  "example_cell c =
     \<lparr>p_grid_id = ''amazon_grid_0_0'', p_row = 0, p_col = 0, p_center = (0, 0),
      p_bounds = \<lparr>north = 0, south = 0, east = 0, west = 0\<rparr>, p_area_km2 = 0,
      p_risk_score = 50, p_risk_category = c, p_probability = 0.5,
      p_weather = \<lparr>numeric = Map.empty, textual = map_of [(''source'', ''simulated'')]\<rparr>,
      p_model_type = ''Rule-based Fallback''\<rparr>"

definition example_region :: "grid_prediction list" where
  "example_region = map example_cell
     [''High'', ''High'', ''High'', ''Medium'', ''Medium'',
      ''Low'', ''Low'', ''Low'', ''Low'', ''Low'', ''Low'', ''Low'']"


text \<open>A process started with no model files, and a hot, dry, windy observation.\<close>

definition no_artifacts :: FireRiskModel where
  "no_artifacts = load_model Absent Absent Absent"

definition hot_dry_weather :: weather_dict where
  "hot_dry_weather =
     \<lparr>numeric = map_of [(''temperature'', 40), (''humidity'', 20), (''wind_speed'', 25),
                        (''rainfall'', 0), (''fwi'', 20)],
      textual = map_of [(''source'', ''simulated'')]\<rparr>"

text \<open>
  An observation whose fallback score is 33.5, the prediction it gets, and a process
  that loaded a classifier answering with the same two class probabilities for every
  input.
\<close>

definition fallback_importance :: "(string \<times> real) list" where
  "fallback_importance =
     [(''Temperature'', 0.18), (''RH'', 0.15), (''Ws'', 0.12), (''Rain'', 0.10),
      (''FFMC'', 0.15), (''DMC'', 0.08), (''DC'', 0.07), (''ISI'', 0.06),
      (''BUI'', 0.05), (''FWI'', 0.04)]"

definition mild_weather :: weather_dict where
  "mild_weather =
     \<lparr>numeric = map_of [(''temperature'', 25), (''humidity'', 39), (''wind_speed'', 2),
                        (''rainfall'', 0), (''fwi'', 0)],
      textual = map_of [(''source'', ''simulated'')]\<rparr>"

definition mild_prediction :: prediction where
  "mild_prediction =
     \<lparr>risk_score = 33.5, risk_category = ''Medium'', probability = 0.335,
      feature_importance = fallback_importance, model_type = ''Rule-based Fallback''\<rparr>"

definition constant_classifier :: classifier where
  "constant_classifier =
     \<lparr>predict_proba = (\<lambda>xs. [0.3, 0.7]), feature_importances = [0.1, 0.1, 0.1, 0.1, 0.1, 0.1, 0.1, 0.1, 0.1, 0.1]\<rparr>"

definition trained :: FireRiskModel where
  "trained = load_model (Stored constant_classifier) (Stored (\<lambda>xs. xs)) Absent"

definition trained_prediction :: prediction where
  "trained_prediction =
     \<lparr>risk_score = 70, risk_category = ''High'', probability = 0.7,
      feature_importance = map (\<lambda>k. (k, 0.1)) FEATURE_COLUMNS, model_type = ''Random Forest''\<rparr>"

text \<open>
  An observation on the lower ends of the temperature and wind bands and on the upper end
  of the humidity band, with the prediction it gets; and the name, severity and value of a
  factor.
\<close>

definition boundary_weather :: weather_dict where
  "boundary_weather =
     \<lparr>numeric = map_of [(''temperature'', 30), (''humidity'', 50), (''wind_speed'', 15),
                        (''rainfall'', 2), (''fwi'', 10)],
      textual = map_of [(''source'', ''simulated'')]\<rparr>"

definition boundary_prediction :: prediction where
  "boundary_prediction =
     \<lparr>risk_score = 67.5, risk_category = ''High'', probability = 0.675,
      feature_importance = fallback_importance, model_type = ''Rule-based Fallback''\<rparr>"


definition tag :: "factor \<Rightarrow> string \<times> string \<times> real" where
  "tag f = (factor_name f, impact f, factor_value f)"

text \<open>
  An extreme observation (temperature 100, humidity 0), the indices derived from it, and
  the test that a dictionary entry is present and lies in a closed interval.
\<close>

definition extreme_weather :: weather_dict where
  "extreme_weather =
     \<lparr>numeric = map_of [(''temperature'', 100), (''humidity'', 0), (''wind_speed'', 13),
                        (''rainfall'', 0)],
      textual = map_of [(''source'', ''openweather_api'')]\<rparr>"

definition extreme_indices :: "string \<rightharpoonup> real" where
  "extreme_indices = map_of
     [(''ffmc'', 96), (''dmc'', 30), (''dc'', 400), (''isi'', 8), (''bui'', 32), (''fwi'', 16)]"

definition in_band :: "real option \<Rightarrow> real \<Rightarrow> real \<Rightarrow> bool" where
  "in_band v lo hi = (case v of None \<Rightarrow> False | Some x \<Rightarrow> lo \<le> x \<and> x \<le> hi)"

text \<open>
  A process whose live service is down, with a small deterministic generator, and two
  states of the world: a fresh one and one that has already drawn numbers and sent a
  request.
\<close>

definition demo_env :: "nat env" where
  "demo_env =
     \<lparr>OPENWEATHER_API_KEY = ''key'',
      http_get = (\<lambda>n lat lng. None),
      hash_fn = (\<lambda>s. int (length s)),
      seed_fn = (\<lambda>s. nat s),
      random_fn = (\<lambda>g. (real (g mod 10) / 10, Suc g))\<rparr>"

definition fresh_world :: "nat world" where
  "fresh_world = \<lparr>rng = 0, api_calls = []\<rparr>"

definition used_world :: "nat world" where
  "used_world = \<lparr>rng = 7, api_calls = [(1, 2)]\<rparr>"

definition unknown_region_message :: string where
  "unknown_region_message =
     ''Unknown region: atlantis. Available: ['amazon', 'california', 'australia', 'mediterranean']''"

text \<open>The names of the contributing factors of an explanation.\<close>

definition factor_names :: "explanation \<Rightarrow> string set" where
  "factor_names ex = set (map factor_name (contributing_factors ex))"

text \<open>
  Points of a bounding box, edges included, and points strictly inside it; and the first
  region of the registry.
\<close>

definition in_box :: "bounds \<Rightarrow> real \<Rightarrow> real \<Rightarrow> bool" where
  "in_box b lat lng \<longleftrightarrow> south b \<le> lat \<and> lat \<le> north b \<and> west b \<le> lng \<and> lng \<le> east b"

definition in_interior :: "bounds \<Rightarrow> real \<Rightarrow> real \<Rightarrow> bool" where
  "in_interior b lat lng \<longleftrightarrow> south b < lat \<and> lat < north b \<and> west b < lng \<and> lng < east b"

definition amazon_region :: ForestRegion where
  "amazon_region = snd (hd FOREST_REGIONS_items)"

section \<open>Verified properties\<close>

subsection \<open>Rounding\<close>

text \<open>Rounding is monotone and fixes the multiples of the rounding unit.\<close>


lemma round_half_even_ge: "of_int a \<le> x \<Longrightarrow> a \<le> round_half_even x"
proof -
  assume "of_int a \<le> x"
  then have "a \<le> \<lfloor>x\<rfloor>" by (simp add: le_floor_iff)
  then show ?thesis by (auto simp: round_half_even_def Let_def)
qed

lemma round_half_even_le: "x \<le> of_int b \<Longrightarrow> round_half_even x \<le> b"
proof -
  assume xb: "x \<le> of_int b"
  then have fb: "\<lfloor>x\<rfloor> \<le> b" by (simp add: floor_le_iff)
  have "\<lfloor>x\<rfloor> + 1 \<le> b" if "0 < x - of_int \<lfloor>x\<rfloor>"
  proof -
    from that have "of_int \<lfloor>x\<rfloor> < x" by simp
    with xb have "of_int \<lfloor>x\<rfloor> < (of_int b :: real)" by linarith
    then show ?thesis by simp
  qed
  with fb show ?thesis by (auto simp: round_half_even_def Let_def)
qed

lemma round_half_even_mono: "x \<le> y \<Longrightarrow> round_half_even x \<le> round_half_even y"
proof -
  assume xy: "x \<le> y"
  then have fl: "\<lfloor>x\<rfloor> \<le> \<lfloor>y\<rfloor>" by (rule floor_mono)
  show ?thesis
  proof (cases "\<lfloor>x\<rfloor> = \<lfloor>y\<rfloor>")
    case True
    with xy show ?thesis by (auto simp: round_half_even_def Let_def)
  next
    case False
    with fl have "\<lfloor>x\<rfloor> + 1 \<le> \<lfloor>y\<rfloor>" by simp
    moreover have "round_half_even x \<le> \<lfloor>x\<rfloor> + 1" by (auto simp: round_half_even_def Let_def)
    moreover have "\<lfloor>y\<rfloor> \<le> round_half_even y" by (auto simp: round_half_even_def Let_def)
    ultimately show ?thesis by linarith
  qed
qed

lemma py_round_ge: "of_int a / 10 ^ n \<le> x \<Longrightarrow> of_int a / 10 ^ n \<le> py_round x n"
proof -
  assume "of_int a / 10 ^ n \<le> x"
  then have "of_int a \<le> x * 10 ^ n" by (simp add: divide_le_eq)
  then have "a \<le> round_half_even (x * 10 ^ n)" by (rule round_half_even_ge)
  then show ?thesis by (simp add: py_round_def divide_le_cancel)
qed

lemma py_round_le: "x \<le> of_int b / 10 ^ n \<Longrightarrow> py_round x n \<le> of_int b / 10 ^ n"
proof -
  assume "x \<le> of_int b / 10 ^ n"
  then have "x * 10 ^ n \<le> of_int b" by (simp add: le_divide_eq)
  then have "round_half_even (x * 10 ^ n) \<le> b" by (rule round_half_even_le)
  then show ?thesis by (simp add: py_round_def divide_le_cancel)
qed

lemma py_round_mono: "x \<le> y \<Longrightarrow> py_round x n \<le> py_round y n"
  by (simp add: py_round_def divide_le_cancel round_half_even_mono)

lemma py_round_between:
  "of_int a / 10 ^ n \<le> x \<Longrightarrow> x \<le> of_int b / 10 ^ n \<Longrightarrow>
     of_int a / 10 ^ n \<le> py_round x n \<and> py_round x n \<le> of_int b / 10 ^ n"
  by (simp add: py_round_ge py_round_le)

subsection \<open>Aggregation and alerting\<close>

lemma alert_of_cases:
  "(alert_of cs = ''CRITICAL'' \<longleftrightarrow> 3 \<le> count_list cs ''High'') \<and>
   (alert_of cs = ''WARNING'' \<longleftrightarrow> count_list cs ''High'' = 1 \<or> count_list cs ''High'' = 2) \<and>
   (alert_of cs = ''NORMAL'' \<longleftrightarrow> count_list cs ''High'' = 0)"
  by (auto simp: alert_of_def)

text \<open>The summary of a region-wide pass is the summary of the cells it returns.\<close>

lemma pass_summary:
  "fst (predict_fire_risk e self region_id w) = Inr resp \<Longrightarrow>
     summarize (grids resp) = Inr (resp_summary resp)"
  by (auto simp: predict_fire_risk_def bind_err_def Let_def
           split: option.splits sum.splits prod.splits)

text \<open>
  C6. Every aggregation over at least one cell yields a summary; its \<open>high_risk_count\<close>
  is the number of cells categorized High, and its alert level is CRITICAL exactly when
  that number is at least 3, WARNING exactly when it is 1 or 2, and NORMAL exactly when
  it is 0.
\<close>

theorem alert_level_thresholds:
  "predictions \<noteq> [] \<Longrightarrow>
     \<exists>s. summarize predictions = Inr s \<and>
       total_grids s = length predictions \<and>
       high_risk_count s = count_list (map p_risk_category predictions) ''High'' \<and>
       (alert_level s = ''CRITICAL'' \<longleftrightarrow> 3 \<le> high_risk_count s) \<and>
       (alert_level s = ''WARNING'' \<longleftrightarrow> high_risk_count s = 1 \<or> high_risk_count s = 2) \<and>
       (alert_level s = ''NORMAL'' \<longleftrightarrow> high_risk_count s = 0)"
  by (cases predictions) (simp_all add: summarize_def Let_def alert_of_cases)

text \<open>The twelve-cell region with three High cells is CRITICAL with \<open>high_risk_count = 3\<close>.\<close>

theorem alert_level_thresholds_witness:
  "example_region \<noteq> [] \<and>
   (\<exists>s. summarize example_region = Inr s \<and> total_grids s = 12 \<and>
        high_risk_count s = 3 \<and> alert_level s = ''CRITICAL'')"
  using alert_level_thresholds [of example_region]
  by (auto simp: example_region_def example_cell_def)

subsection \<open>Risk scoring\<close>

lemma categorize_total:
  "categorize s = Inr (if s \<le> 33 then ''Low'' else if s \<le> 66 then ''Medium'' else ''High'')"
  by (simp add: categorize_def bind_err_def subscript_def RISK_THRESHOLDS_def)

lemma no_artifacts_simps:
  "is_loaded no_artifacts = False" "model no_artifacts = None" "scaler no_artifacts = None"
  by (simp_all add: no_artifacts_def load_model_def)



lemma py_round_unit_score:
  "0 \<le> x \<Longrightarrow> x \<le> 100 \<Longrightarrow> 0 \<le> py_round x 1 \<and> py_round x 1 \<le> 100"
  using py_round_between [of 0 1 x 1000] by simp

lemma score_model_fallback_range:
  "\<not> (is_loaded self \<and> model self \<noteq> None) \<Longrightarrow> score_model self w = Inr (r, q, imp) \<Longrightarrow> 0 \<le> r \<and> r \<le> 100"
  by (auto simp: score_model_def calculate_fallback_risk_def Let_def split: bool.splits option.splits)

lemma score_model_model_range:
  assumes "is_loaded self" "model self = Some clf"
    and "score_model self w = Inr (r, q, imp)"
    and "\<And>xs q. q \<in> set (predict_proba clf xs) \<Longrightarrow> 0 \<le> q \<and> q \<le> 1"
  shows "0 \<le> r \<and> r \<le> 100"
proof -
  from assms(1-3) obtain t where t: "scaler self = Some t"
    by (auto simp: score_model_def split: option.splits)
  let ?proba = "predict_proba clf (t (weather_to_features w))"
  from assms(1-3) t have "r = q * 100 \<and> q \<in> set ?proba"
    by (auto simp: score_model_def bind_err_def Let_def split: if_splits list.splits)
  with assms(4) [of q] show ?thesis by auto
qed

text \<open>
  C2, as the code implements it. A returned score lies between 0 and 100, in fallback
  mode always and in model mode whenever the classifier's probabilities lie between 0
  and 1. The category is Low exactly when the score is at most 33, Medium exactly when
  it is above 33 and at most 66, and High exactly when it is above 66; so 33 is Low, 34
  and 66 are Medium and 67 is High.
\<close>

theorem category_bands:
  assumes "predict self w = Inr p"
    and "\<And>clf xs q. is_loaded self \<Longrightarrow> model self = Some clf \<Longrightarrow>
            q \<in> set (predict_proba clf xs) \<Longrightarrow> 0 \<le> q \<and> q \<le> 1"
  shows "0 \<le> risk_score p \<and> risk_score p \<le> 100 \<and>
     (risk_category p = ''Low'' \<longleftrightarrow> risk_score p \<le> 33) \<and>
     (risk_category p = ''Medium'' \<longleftrightarrow> 33 < risk_score p \<and> risk_score p \<le> 66) \<and>
     (risk_category p = ''High'' \<longleftrightarrow> 66 < risk_score p) \<and>
     categorize 33 = Inr ''Low'' \<and> categorize 34 = Inr ''Medium'' \<and>
     categorize 66 = Inr ''Medium'' \<and> categorize 67 = Inr ''High''"
proof -
  from assms(1) obtain r q imp where sm: "score_model self w = Inr (r, q, imp)"
    and rs: "risk_score p = py_round r 1"
    and cat: "categorize (py_round r 1) = Inr (risk_category p)"
    by (auto simp: predict_def bind_err_def Let_def split: sum.splits prod.splits)
  have "0 \<le> r \<and> r \<le> 100"
  proof (cases "is_loaded self \<and> model self \<noteq> None")
    case True
    then obtain clf where "is_loaded self" "model self = Some clf" by auto
    then show ?thesis using score_model_model_range [OF _ _ sm] assms(2) by blast
  next
    case False
    then show ?thesis using score_model_fallback_range [OF _ sm] by blast
  qed
  then have range: "0 \<le> risk_score p \<and> risk_score p \<le> 100"
    using py_round_unit_score rs by simp
  from cat rs have "risk_category p =
      (if risk_score p \<le> 33 then ''Low'' else if risk_score p \<le> 66 then ''Medium'' else ''High'')"
    by (auto simp: categorize_total)
  then have bands: "(risk_category p = ''Low'' \<longleftrightarrow> risk_score p \<le> 33) \<and>
     (risk_category p = ''Medium'' \<longleftrightarrow> 33 < risk_score p \<and> risk_score p \<le> 66) \<and>
     (risk_category p = ''High'' \<longleftrightarrow> 66 < risk_score p)"
    by (auto split: if_splits)
  show ?thesis using range bands by (simp add: categorize_total)
qed

lemma trained_simps:
  "is_loaded trained = True" "model trained = Some constant_classifier" "scaler trained = Some (\<lambda>xs. xs)"
  by (simp_all add: trained_def load_model_def)

lemma predict_trained: "predict trained hot_dry_weather = Inr trained_prediction"
  by (simp add: trained_simps predict_def score_model_def bind_err_def categorize_total
        constant_classifier_def trained_prediction_def FEATURE_COLUMNS_def
        py_round_def round_half_even_def Let_def)

text \<open>A loaded classifier with positive-class probability 0.7: score 70, category High.\<close>

theorem category_bands_witness:
  "predict trained hot_dry_weather = Inr trained_prediction \<and>
   0 \<le> risk_score trained_prediction \<and> risk_score trained_prediction \<le> 100 \<and>
   66 < risk_score trained_prediction \<and> risk_category trained_prediction = ''High''"
proof -
  have h: "\<And>clf xs q. is_loaded trained \<Longrightarrow> model trained = Some clf \<Longrightarrow>
            q \<in> set (predict_proba clf xs) \<Longrightarrow> 0 \<le> q \<and> q \<le> 1"
    by (auto simp: trained_simps constant_classifier_def)
  from category_bands [OF predict_trained h] predict_trained show ?thesis
    by (simp add: trained_prediction_def)
qed

text \<open>
  The score 33.5 is categorized Medium although it is below 34: the Medium band does not
  start at 34.
\<close>

theorem category_bands_counterexample:
  "predict no_artifacts mild_weather = Inr mild_prediction \<and>
   risk_category mild_prediction = ''Medium'' \<and>
   \<not> (34 \<le> risk_score mild_prediction \<and> risk_score mild_prediction \<le> 66)"
  by (simp add: no_artifacts_simps predict_def score_model_def bind_err_def categorize_total
        calculate_fallback_risk_def get_default_def mild_weather_def mild_prediction_def
        fallback_importance_def py_round_def round_half_even_def Let_def)

subsection \<open>Explanations\<close>

lemma temperature_tags:
  "set (map tag (temperature_factors temp)) =
     {x. x = (''High Temperature'', ''critical'', temp) \<and> 35 < temp
       \<or> x = (''Elevated Temperature'', ''high'', temp) \<and> 30 < temp \<and> temp \<le> 35}"
  by (cases "35 < temp"; cases "30 < temp") (auto simp: temperature_factors_def tag_def)

lemma humidity_tags:
  "set (map tag (humidity_factors humidity)) =
     {x. x = (''Very Low Humidity'', ''critical'', humidity) \<and> humidity < 30
       \<or> x = (''Low Humidity'', ''moderate'', humidity) \<and> 30 \<le> humidity \<and> humidity < 50}"
  by (cases "humidity < 30"; cases "humidity < 50") (auto simp: humidity_factors_def tag_def)

lemma wind_tags:
  "set (map tag (wind_factors wind)) =
     {x. x = (''High Wind Speed'', ''critical'', wind) \<and> 20 < wind
       \<or> x = (''Moderate Wind'', ''moderate'', wind) \<and> 15 < wind \<and> wind \<le> 20}"
  by (cases "20 < wind"; cases "15 < wind") (auto simp: wind_factors_def tag_def)

lemma rain_tags:
  "set (map tag (rain_factors rain)) =
     {x. x = (''Recent Rainfall'', ''protective'', rain) \<and> 5 < rain
       \<or> x = (''No Recent Rain'', ''moderate'', rain) \<and> rain < 1}"
  by (cases "5 < rain"; cases "rain < 1") (auto simp: rain_factors_def tag_def)

lemma fwi_tags:
  "set (map tag (fwi_factors fwi)) =
     {x. x = (''High Fire Weather Index'', ''critical'', fwi) \<and> 15 < fwi}"
  by (cases "15 < fwi") (simp_all add: fwi_factors_def tag_def)

text \<open>
  C8, as the code implements it. The contributing factors are exactly those whose rule
  fires, each rule evaluated on its own input: temperature above 35 gives critical High
  Temperature,
  above 30 and at most 35 gives high Elevated Temperature; humidity below 30 gives
  critical Very Low Humidity, at least 30 and below 50 gives moderate Low Humidity; wind
  above 20 gives critical High Wind Speed, above 15 and at most 20 gives moderate
  Moderate Wind; rainfall above 5 gives protective Recent Rainfall, below 1 gives
  moderate No Recent Rain; an index above 15 gives critical High Fire Weather Index.
\<close>

theorem explanation_rules:
  "(let temp = get_default (numeric weather_data) ''temperature'' 25;
        humidity = get_default (numeric weather_data) ''humidity'' 50;
        wind = get_default (numeric weather_data) ''wind_speed'' 10;
        rain = get_default (numeric weather_data) ''rainfall'' 0;
        fwi = get_default (numeric weather_data) ''fwi'' 10
    in set (map tag (contributing_factors (explain_prediction weather_data pred))) =
       {x. x = (''High Temperature'', ''critical'', temp) \<and> 35 < temp
         \<or> x = (''Elevated Temperature'', ''high'', temp) \<and> 30 < temp \<and> temp \<le> 35}
     \<union> {x. x = (''Very Low Humidity'', ''critical'', humidity) \<and> humidity < 30
         \<or> x = (''Low Humidity'', ''moderate'', humidity) \<and> 30 \<le> humidity \<and> humidity < 50}
     \<union> {x. x = (''High Wind Speed'', ''critical'', wind) \<and> 20 < wind
         \<or> x = (''Moderate Wind'', ''moderate'', wind) \<and> 15 < wind \<and> wind \<le> 20}
     \<union> {x. x = (''Recent Rainfall'', ''protective'', rain) \<and> 5 < rain
         \<or> x = (''No Recent Rain'', ''moderate'', rain) \<and> rain < 1}
     \<union> {x. x = (''High Fire Weather Index'', ''critical'', fwi) \<and> 15 < fwi})"
  unfolding Let_def explain_prediction_def
  by (simp only: explanation.simps map_append set_append temperature_tags humidity_tags
        wind_tags rain_tags fwi_tags Un_assoc)

text \<open>
  At temperature 30, humidity 50 and wind 15 no rule fires: the explanation has no
  contributing factor.
\<close>

theorem explanation_rules_counterexample:
  "predict no_artifacts boundary_weather = Inr boundary_prediction \<and>
   numeric boundary_weather ''temperature'' = Some 30 \<and>
   numeric boundary_weather ''humidity'' = Some 50 \<and>
   numeric boundary_weather ''wind_speed'' = Some 15 \<and>
   contributing_factors (explain_prediction boundary_weather boundary_prediction) = []"
  by (simp add: no_artifacts_simps predict_def score_model_def bind_err_def categorize_total
        calculate_fallback_risk_def get_default_def boundary_weather_def boundary_prediction_def
        fallback_importance_def py_round_def round_half_even_def Let_def
        explain_prediction_def temperature_factors_def humidity_factors_def wind_factors_def
        rain_factors_def fwi_factors_def)

subsection \<open>Fire-weather indices\<close>

lemma clamp_round_in_band:
  "of_int a / 10 \<le> of_int b / (10::real) \<Longrightarrow>
     in_band (Some (py_round (max (of_int a / 10) (min (of_int b / 10) x)) 1)) (of_int a / 10) (of_int b / 10)"
  using py_round_between [of a 1 "max (of_int a / 10) (min (of_int b / 10) x)" b]
  by (simp add: in_band_def)

lemma ffmc_in_band: "in_band (Some (py_round (ffmc_of t h r) 1)) 40 96"
  using clamp_round_in_band [of 400 960] by (simp add: ffmc_of_def Let_def)

lemma dmc_in_band: "in_band (Some (py_round (dmc_of t h) 1)) 1 30"
  using clamp_round_in_band [of 10 300] by (simp add: dmc_of_def)

lemma dc_in_band: "in_band (Some (py_round (dc_of t r) 1)) 5 400"
  using clamp_round_in_band [of 50 4000] by (simp add: dc_of_def)

lemma isi_in_band: "in_band (Some (py_round (isi_of f w) 1)) 0 15"
  using clamp_round_in_band [of 0 150] by (simp add: isi_of_def)

lemma bui_in_band: "in_band (Some (py_round (bui_of d c) 1)) 1 40"
  using clamp_round_in_band [of 10 400] by (simp add: bui_of_def)

lemma fwi_in_band: "in_band (Some (py_round (fwi_of i b) 1)) 0 25"
  using clamp_round_in_band [of 0 250] by (simp add: fwi_of_def)

text \<open>
  C4. For every observation carrying the four primary fields, the derivation returns six
  indices, each clamped on its own to its range and then rounded: ffmc in [40, 96], dmc
  in [1, 30], dc in [5, 400], isi in [0, 15], bui in [1, 40] and fwi in [0, 25]; the
  value clamped for fwi is the square root of the product of the clamped isi and bui.
\<close>

theorem fire_indices_clamped:
  assumes "numeric weather ''temperature'' = Some temp"
    and "numeric weather ''humidity'' = Some humidity"
    and "numeric weather ''wind_speed'' = Some wind"
    and "numeric weather ''rainfall'' = Some rain"
  shows "\<exists>d. generate_fire_weather_indices weather = Inr d \<and>
     in_band (d ''ffmc'') 40 96 \<and> in_band (d ''dmc'') 1 30 \<and> in_band (d ''dc'') 5 400 \<and>
     in_band (d ''isi'') 0 15 \<and> in_band (d ''bui'') 1 40 \<and> in_band (d ''fwi'') 0 25 \<and>
     d ''isi'' = Some (py_round (isi_of (ffmc_of temp humidity rain) wind) 1) \<and>
     d ''bui'' = Some (py_round (bui_of (dmc_of temp humidity) (dc_of temp rain)) 1) \<and>
     d ''fwi'' = Some (py_round (max 0 (min 25
        (sqrt (isi_of (ffmc_of temp humidity rain) wind
               * bui_of (dmc_of temp humidity) (dc_of temp rain))))) 1)"
  using assms unfolding fwi_of_def [symmetric]
  by (simp add: generate_fire_weather_indices_def subscript_def bind_err_def Let_def
        ffmc_in_band dmc_in_band dc_in_band isi_in_band bui_in_band fwi_in_band
        del: One_nat_def)

lemma sqrt_256: "sqrt 256 = 16"
  by (rule real_sqrt_unique) simp_all

lemma extreme_values:
  "ffmc_of 100 0 0 = 96" "dmc_of 100 0 = 30" "dc_of 100 0 = 400"
  "isi_of 96 13 = 8" "bui_of 30 400 = 32" "fwi_of 8 32 = 16"
  by (simp_all add: ffmc_of_def dmc_of_def dc_of_def isi_of_def bui_of_def fwi_of_def sqrt_256)

lemma py_round_extreme:
  "py_round 96 1 = 96" "py_round 30 1 = 30" "py_round 400 1 = 400"
  "py_round 8 1 = 8" "py_round 32 1 = 32" "py_round 16 1 = 16"
  by (simp_all add: py_round_def round_half_even_def)

lemma extreme_eval: "generate_fire_weather_indices extreme_weather = Inr extreme_indices"
  by (simp add: generate_fire_weather_indices_def subscript_def bind_err_def Let_def
        extreme_weather_def extreme_indices_def extreme_values py_round_extreme
        del: One_nat_def)

text \<open>At temperature 100 and humidity 0 the indices sit on their upper bounds or inside.\<close>

theorem fire_indices_clamped_witness:
  "numeric extreme_weather ''temperature'' = Some 100 \<and>
   numeric extreme_weather ''humidity'' = Some 0 \<and>
   numeric extreme_weather ''wind_speed'' = Some 13 \<and>
   numeric extreme_weather ''rainfall'' = Some 0 \<and>
   generate_fire_weather_indices extreme_weather = Inr extreme_indices \<and>
   in_band (extreme_indices ''ffmc'') 40 96 \<and> in_band (extreme_indices ''dmc'') 1 30 \<and>
   in_band (extreme_indices ''dc'') 5 400 \<and> in_band (extreme_indices ''isi'') 0 15 \<and>
   in_band (extreme_indices ''bui'') 1 40 \<and> in_band (extreme_indices ''fwi'') 0 25"
proof -
  have t: "numeric extreme_weather ''temperature'' = Some 100"
    and h: "numeric extreme_weather ''humidity'' = Some 0"
    and w: "numeric extreme_weather ''wind_speed'' = Some 13"
    and r: "numeric extreme_weather ''rainfall'' = Some 0"
    by (simp_all add: extreme_weather_def)
  from fire_indices_clamped [OF t h w r] obtain d
    where d: "generate_fire_weather_indices extreme_weather = Inr d"
      and b: "in_band (d ''ffmc'') 40 96" "in_band (d ''dmc'') 1 30" "in_band (d ''dc'') 5 400"
        "in_band (d ''isi'') 0 15" "in_band (d ''bui'') 1 40" "in_band (d ''fwi'') 0 25"
    by blast
  from d have "d = extreme_indices" by (simp add: extreme_eval)
  with b t h w r show ?thesis by (simp add: extreme_eval)
qed

subsection \<open>Unknown regions\<close>

text \<open>
  The work done for one cell shows in the world: with a credential, one more request to
  the live service; and a simulation leaves the generator in the state after its draws.
\<close>

lemma fetch_trace:
  "api_calls (snd (fetch_weather_from_api e lat lng w)) =
     (if OPENWEATHER_API_KEY e = [] then api_calls w else api_calls w @ [(lat, lng)])"
  by (simp add: fetch_weather_from_api_def Let_def split: option.splits)

lemma simulated_trace:
  "api_calls (snd (generate_simulated_weather e lat lng grid_id w)) = api_calls w"
  "rng (snd (generate_simulated_weather e lat lng grid_id w)) = snd (simulate_raw e lat grid_id)"
  by (simp_all add: generate_simulated_weather_def split: prod.splits)

lemma cell_work_trace:
  "api_calls (snd (predict_for_grid e self g w)) =
     (if OPENWEATHER_API_KEY e = [] then api_calls w
      else api_calls w @ [(g_center_lat g, g_center_lng g)])"
proof -
  obtain fetched w1 where f: "fetch_weather_from_api e (g_center_lat g) (g_center_lng g) w = (fetched, w1)"
    by (cases "fetch_weather_from_api e (g_center_lat g) (g_center_lng g) w")
  from fetch_trace [of e "g_center_lat g" "g_center_lng g" w] f
  have w1: "api_calls w1 = (if OPENWEATHER_API_KEY e = [] then api_calls w
      else api_calls w @ [(g_center_lat g, g_center_lng g)])" by simp
  show ?thesis
  proof (cases fetched)
    case None
    obtain obs w2 where s: "generate_simulated_weather e (g_center_lat g) (g_center_lng g) (g_id g) w1 = (obs, w2)"
      by (cases "generate_simulated_weather e (g_center_lat g) (g_center_lng g) (g_id g) w1")
    with simulated_trace(1) [of e "g_center_lat g" "g_center_lng g" "g_id g" w1]
    have "api_calls w2 = api_calls w1" by simp
    with f None s w1 show ?thesis
      by (simp add: predict_for_grid_def get_weather_for_grid_def Let_def split: sum.splits)
  next
    case (Some d)
    with f w1 show ?thesis
      by (simp add: predict_for_grid_def get_weather_for_grid_def Let_def split: sum.splits)
  qed
qed

lemma str_list_regions:
  "str_list (map fst FOREST_REGIONS_items) = ''['amazon', 'california', 'australia', 'mediterranean']''"
  by (simp add: str_list_def FOREST_REGIONS_items_def upt_rec)

text \<open>
  C7. For a region id outside the registry, the region-wide prediction fails with the
  not-found error 404 whatever the weather service, the scorer and the generator are,
  and leaves the world as it found it: no request is sent to the live service and the
  generator is neither seeded nor drawn from; the result carries no cell. The
  partitioner itself rejects the id as well.
\<close>

theorem unknown_region_rejected:
  "FOREST_REGIONS region_id = None \<Longrightarrow>
     predict_fire_risk e self region_id w =
       (Inl (HTTPException 404
          (''Unknown region: '' @ region_id
             @ ''. Available: ['amazon', 'california', 'australia', 'mediterranean']'')), w) \<and>
     generate_grids_for_region region_id = Inl (ValueError (''Unknown region: '' @ region_id))"
  by (simp add: predict_fire_risk_def generate_grids_for_region_def str_list_regions)

text \<open>The id \<open>atlantis\<close> is rejected and the world is unchanged.\<close>

theorem unknown_region_rejected_witness:
  "FOREST_REGIONS ''atlantis'' = None \<and>
   predict_fire_risk demo_env trained ''atlantis'' used_world =
     (Inl (HTTPException 404 unknown_region_message), used_world) \<and>
   generate_grids_for_region ''atlantis'' = Inl (ValueError ''Unknown region: atlantis'')"
proof -
  have h: "FOREST_REGIONS ''atlantis'' = None"
    by (simp add: FOREST_REGIONS_def FOREST_REGIONS_items_def)
  from unknown_region_rejected [OF h, of demo_env trained used_world] h show ?thesis
    by (simp add: unknown_region_message_def)
qed

subsection \<open>Simulated weather\<close>


lemma fetch_unavailable:
  "fst (fetch_weather_from_api e lat lng w) = None \<Longrightarrow>
     fst (get_weather_for_grid e lat lng grid_id w) =
       (let weather = fst (generate_simulated_weather e lat lng grid_id w)
        in case generate_fire_weather_indices weather of
             Inl x \<Rightarrow> Inl x
           | Inr fwi_indices \<Rightarrow>
               Inr \<lparr>numeric = ((numeric weather ++ fwi_indices)(''lat'' \<mapsto> lat))(''lng'' \<mapsto> lng),
                    textual = (textual weather)(''grid_id'' \<mapsto> grid_id)\<rparr>)"
  by (auto simp: get_weather_for_grid_def generate_simulated_weather_def Let_def
           split: prod.splits sum.splits option.splits)


lemma demo_fetch: "fst (fetch_weather_from_api demo_env lat lng w) = None"
  by (simp add: fetch_weather_from_api_def demo_env_def Let_def)


subsection \<open>Simulated rainfall and the protective factor\<close>

lemma simulate_raw_rainfall:
  assumes unit: "\<And>g. 0 \<le> fst (random_fn e g) \<and> fst (random_fn e g) < 1"
    and raw: "simulate_raw e lat grid_id = ((temperature, humidity, wind_speed, rainfall), g')"
  shows "0 \<le> rainfall \<and> rainfall < 5 \<and> (humidity \<le> 60 \<longrightarrow> rainfall = 0) \<and>
         (60 < humidity \<longrightarrow> (\<exists>g. rainfall = 0 + (5 - 0) * fst (random_fn e g)))"
proof -
  define g3 where "g3 = snd (uniform e 5 25 (snd (uniform e (- 10) 10
      (snd (uniform e (- 5) 10 (seed_fn e (hash_fn e grid_id mod 10000)))))))"
  have "snd (snd (snd (fst (simulate_raw e lat grid_id)))) =
        fst (if fst (snd (fst (simulate_raw e lat grid_id))) > 60
             then uniform e 0 5 g3 else (0, g3))"
    unfolding simulate_raw_def Let_def case_prod_beta g3_def
    by (simp only: fst_conv snd_conv)
  then have r: "rainfall = fst (if humidity > 60 then uniform e 0 5 g3 else (0, g3))"
    by (simp only: raw fst_conv snd_conv)
  obtain u g4 where rf: "random_fn e g3 = (u, g4)" by (cases "random_fn e g3")
  with unit [of g3] have ub: "0 \<le> u" "u < 1" by simp_all
  show ?thesis
  proof (cases "humidity > 60")
    case True
    with r rf have eq: "rainfall = 0 + (5 - 0) * fst (random_fn e g3)"
      by (simp add: uniform_def)
    then have ex: "\<exists>g. rainfall = 0 + (5 - 0) * fst (random_fn e g)" by (rule exI)
    from eq rf ub have "0 \<le> rainfall" "rainfall < 5" by simp_all
    with ex True show ?thesis by simp
  next
    case False
    with r have "rainfall = 0" by simp
    with False show ?thesis by simp
  qed
qed

lemma other_rules_names:
  "''Recent Rainfall'' \<notin> factor_name ` set (temperature_factors t)"
  "''Recent Rainfall'' \<notin> factor_name ` set (humidity_factors h)"
  "''Recent Rainfall'' \<notin> factor_name ` set (wind_factors v)"
  "''Recent Rainfall'' \<notin> factor_name ` set (fwi_factors f)"
  by (auto simp: temperature_factors_def humidity_factors_def wind_factors_def fwi_factors_def)

lemma rain_rule_names:
  "r \<le> 5 \<Longrightarrow> ''Recent Rainfall'' \<notin> factor_name ` set (rain_factors r)"
  by (auto simp: rain_factors_def)

lemma no_recent_rainfall:
  "get_default (numeric wd) ''rainfall'' 0 \<le> 5 \<Longrightarrow>
     ''Recent Rainfall'' \<notin> factor_names (explain_prediction wd pred)"
  by (simp add: factor_names_def explain_prediction_def Let_def image_Un
        other_rules_names rain_rule_names)

lemma simulated_observation:
  "simulate_raw e lat grid_id = ((t, h, v, r), g) \<Longrightarrow>
     fst (generate_simulated_weather e lat lng grid_id w) =
       \<lparr>numeric = map_of [(''temperature'', py_round t 1), (''humidity'', py_round h 1),
                          (''wind_speed'', py_round v 1), (''rainfall'', py_round r 1)],
        textual = map_of [(''source'', ''simulated''),
                          (''weather_description'', ''Simulated conditions'')]\<rparr>"
  by (simp add: generate_simulated_weather_def del: map_of.simps)

lemma simulated_rainfall_entry:
  assumes unit: "\<And>g. 0 \<le> fst (random_fn e g) \<and> fst (random_fn e g) < 1"
  shows "\<exists>r. numeric (fst (generate_simulated_weather e lat lng grid_id w)) ''rainfall'' = Some r
             \<and> 0 \<le> r \<and> r \<le> 5"
proof -
  obtain t h v r g where raw: "simulate_raw e lat grid_id = ((t, h, v, r), g)"
    by (cases "simulate_raw e lat grid_id") auto
  from simulate_raw_rainfall [OF unit raw] have "0 \<le> r" "r \<le> 5" by auto
  then have "0 \<le> py_round r 1 \<and> py_round r 1 \<le> 5"
    using py_round_between [of 0 1 r 50] by simp
  then show ?thesis by (simp add: simulated_observation [OF raw])
qed

lemma simulated_has_fields:
  "\<exists>t h v r. numeric (fst (generate_simulated_weather e lat lng grid_id w)) ''temperature'' = Some t
     \<and> numeric (fst (generate_simulated_weather e lat lng grid_id w)) ''humidity'' = Some h
     \<and> numeric (fst (generate_simulated_weather e lat lng grid_id w)) ''wind_speed'' = Some v
     \<and> numeric (fst (generate_simulated_weather e lat lng grid_id w)) ''rainfall'' = Some r"
proof -
  obtain t h v r g where raw: "simulate_raw e lat grid_id = ((t, h, v, r), g)"
    by (cases "simulate_raw e lat grid_id") auto
  show ?thesis by (simp add: simulated_observation [OF raw])
qed

lemma indices_keep_rainfall:
  assumes "numeric wd ''temperature'' = Some t" "numeric wd ''humidity'' = Some h"
    and "numeric wd ''wind_speed'' = Some v" "numeric wd ''rainfall'' = Some r"
  shows "\<exists>d. generate_fire_weather_indices wd = Inr d \<and>
           (((numeric wd ++ d)(''lat'' \<mapsto> lat))(''lng'' \<mapsto> lng)) ''rainfall'' = Some r"
  using assms
  by (simp add: generate_fire_weather_indices_def subscript_def bind_err_def Let_def map_add_def)

text \<open>
  C10. With a generator whose draws lie in the unit interval (1 excluded), the simulated
  rainfall is 0 when the simulated humidity, as the simulator tests it before rounding,
  is at most 60, and otherwise a draw scaled to the interval from 0 to 5; rounded to one
  decimal it never exceeds 5. So neither the simulated observation nor the weather
  payload built from it when the live service is down ever gets the factor Recent
  Rainfall in its explanation.
\<close>

theorem simulated_rainfall_cap:
  assumes unit: "\<And>g. 0 \<le> fst (random_fn e g) \<and> fst (random_fn e g) < 1"
  shows
    "(case simulate_raw e lat grid_id of
        ((temperature, humidity, wind_speed, rainfall), g') \<Rightarrow>
          0 \<le> rainfall \<and> rainfall < 5 \<and> (humidity \<le> 60 \<longrightarrow> rainfall = 0) \<and>
          (60 < humidity \<longrightarrow> (\<exists>g. rainfall = 0 + (5 - 0) * fst (random_fn e g))) \<and>
          numeric (fst (generate_simulated_weather e lat lng grid_id w)) ''rainfall''
            = Some (py_round rainfall 1) \<and>
          py_round rainfall 1 \<le> 5) \<and>
     ''Recent Rainfall'' \<notin>
        factor_names (explain_prediction (fst (generate_simulated_weather e lat lng grid_id w)) pred) \<and>
     (fst (fetch_weather_from_api e lat lng w) = None \<longrightarrow>
        (\<exists>wd. fst (get_weather_for_grid e lat lng grid_id w) = Inr wd \<and>
              ''Recent Rainfall'' \<notin> factor_names (explain_prediction wd pred)))"
proof -
  obtain t h v r g where raw: "simulate_raw e lat grid_id = ((t, h, v, r), g)"
    by (cases "simulate_raw e lat grid_id") auto
  note rr = simulate_raw_rainfall [OF unit raw]
  from rr have "py_round r 1 \<le> 5" using py_round_le [of r 50 1] by simp
  with rr raw have first: "(case simulate_raw e lat grid_id of
        ((temperature, humidity, wind_speed, rainfall), g') \<Rightarrow>
          0 \<le> rainfall \<and> rainfall < 5 \<and> (humidity \<le> 60 \<longrightarrow> rainfall = 0) \<and>
          (60 < humidity \<longrightarrow> (\<exists>g. rainfall = 0 + (5 - 0) * fst (random_fn e g))) \<and>
          numeric (fst (generate_simulated_weather e lat lng grid_id w)) ''rainfall''
            = Some (py_round rainfall 1) \<and>
          py_round rainfall 1 \<le> 5)"
    by (simp add: generate_simulated_weather_def)
  let ?obs = "fst (generate_simulated_weather e lat lng grid_id w)"
  from simulated_rainfall_entry [OF unit, of lat lng grid_id w]
  obtain r' where r': "numeric ?obs ''rainfall'' = Some r'" "r' \<le> 5" by auto
  then have second: "''Recent Rainfall'' \<notin> factor_names (explain_prediction ?obs pred)"
    by (intro no_recent_rainfall) (simp add: get_default_def)
  have third: "\<exists>wd. fst (get_weather_for_grid e lat lng grid_id w) = Inr wd \<and>
              ''Recent Rainfall'' \<notin> factor_names (explain_prediction wd pred)"
    if down: "fst (fetch_weather_from_api e lat lng w) = None"
  proof -
    from simulated_has_fields [of e lat lng grid_id w] obtain t' h' v' r'' where
      fields: "numeric ?obs ''temperature'' = Some t'" "numeric ?obs ''humidity'' = Some h'"
        "numeric ?obs ''wind_speed'' = Some v'" "numeric ?obs ''rainfall'' = Some r''" by blast
    with r' have "r'' = r'" by simp
    from indices_keep_rainfall [OF fields, of lat lng] obtain d where
      d: "generate_fire_weather_indices ?obs = Inr d"
      and keep: "(((numeric ?obs ++ d)(''lat'' \<mapsto> lat))(''lng'' \<mapsto> lng)) ''rainfall'' = Some r''"
      by blast
    let ?wd = "\<lparr>numeric = ((numeric ?obs ++ d)(''lat'' \<mapsto> lat))(''lng'' \<mapsto> lng),
                textual = (textual ?obs)(''grid_id'' \<mapsto> grid_id)\<rparr>"
    from down d have "fst (get_weather_for_grid e lat lng grid_id w) = Inr ?wd"
      by (simp add: fetch_unavailable Let_def)
    moreover from keep \<open>r'' = r'\<close> r' have "get_default (numeric ?wd) ''rainfall'' 0 \<le> 5"
      by (simp add: get_default_def)
    then have "''Recent Rainfall'' \<notin> factor_names (explain_prediction ?wd pred)"
      by (rule no_recent_rainfall)
    ultimately show ?thesis by blast
  qed
  from first second third show ?thesis by blast
qed

lemma demo_unit: "0 \<le> fst (random_fn demo_env g) \<and> fst (random_fn demo_env g) < 1"
  by (simp add: demo_env_def)

lemma demo_simulation:
  "simulate_raw demo_env 0 ''amazon_grid_0_0'' = ((42.5, 47, 19, 0), 18)"
  "simulate_raw demo_env 90 ''amazon_grid_0_0'' = ((22.5, 87, 19, 4), 19)"
  by (simp_all add: simulate_raw_def uniform_def demo_env_def Let_def)

text \<open>
  Two simulations with the small generator: at the equator humidity is 47 and rainfall 0;
  at the pole humidity is 87 and rainfall 4, below the threshold of the protective factor.
\<close>

theorem simulated_rainfall_cap_witness:
  "(\<forall>g. 0 \<le> fst (random_fn demo_env g) \<and> fst (random_fn demo_env g) < 1) \<and>
   simulate_raw demo_env 0 ''amazon_grid_0_0'' = ((42.5, 47, 19, 0), 18) \<and>
   simulate_raw demo_env 90 ''amazon_grid_0_0'' = ((22.5, 87, 19, 4), 19) \<and>
   numeric (fst (generate_simulated_weather demo_env 90 0 ''amazon_grid_0_0'' fresh_world))
     ''rainfall'' = Some 4 \<and>
   ''Recent Rainfall'' \<notin> factor_names (explain_prediction
       (fst (generate_simulated_weather demo_env 90 0 ''amazon_grid_0_0'' fresh_world))
       mild_prediction) \<and>
   fst (fetch_weather_from_api demo_env 90 0 fresh_world) = None \<and>
   (\<exists>wd. fst (get_weather_for_grid demo_env 90 0 ''amazon_grid_0_0'' fresh_world) = Inr wd \<and>
         ''Recent Rainfall'' \<notin> factor_names (explain_prediction wd mild_prediction))"
proof -
  have r4: "py_round 4 (Suc 0) = 4" by (simp add: py_round_def round_half_even_def)
  from simulated_rainfall_cap [where e = demo_env and lat = 90 and grid_id = "''amazon_grid_0_0''"
      and lng = 0 and w = fresh_world and pred = mild_prediction, OF demo_unit]
  show ?thesis
    by (simp add: demo_unit demo_simulation demo_fetch r4)
qed

subsection \<open>Grid partitioning\<close>

lemma registered_regions:
  "FOREST_REGIONS region_id = Some region \<Longrightarrow>
     grid_rows region = 3 \<and> grid_cols region = 4 \<and>
     south (r_bounds region) < north (r_bounds region) \<and>
     west (r_bounds region) < east (r_bounds region)"
  by (auto simp: FOREST_REGIONS_def FOREST_REGIONS_items_def split: if_splits)

lemma length_grid:
  "length (concat (map (\<lambda>i. map (f i) [0..<n]) [0..<m])) = m * n"
  by (induction m) simp_all

lemma nth_grid:
  "r < m \<Longrightarrow> c < n \<Longrightarrow> concat (map (\<lambda>i. map (f i) [0..<n]) [0..<m]) ! (r * n + c) = f r c"
proof (induction m)
  case 0
  then show ?case by simp
next
  case (Suc m)
  show ?case
  proof (cases "r < m")
    case True
    with Suc.prems have "r * n + c < m * n"
      by (metis Suc_leI add_less_cancel_left le_trans mult_Suc mult_le_mono1 leD not_less add.commute)
    with True Suc show ?thesis by (simp add: nth_append length_grid)
  next
    case False
    with Suc.prems have "r = m" by simp
    with Suc.prems show ?thesis by (simp add: nth_append length_grid)
  qed
qed

lemma set_grid:
  "set (concat (map (\<lambda>i. map (f i) [0..<n]) [0..<m])) = {x. \<exists>r c. r < m \<and> c < n \<and> x = f r c}"
  by auto blast

lemma interval_cover:
  "0 < n \<Longrightarrow> 0 \<le> s \<Longrightarrow> 0 \<le> x \<Longrightarrow> x \<le> real n * s \<Longrightarrow>
     \<exists>k<n. real k * s \<le> x \<and> x \<le> real k * s + s"
proof (induction n)
  case 0
  then show ?case by simp
next
  case (Suc n)
  show ?case
  proof (cases "x \<le> real n * s \<and> 0 < n")
    case True
    with Suc obtain k where "k < n" "real k * s \<le> x \<and> x \<le> real k * s + s" by blast
    then show ?thesis using less_Suc_eq by blast
  next
    case False
    then have "real n * s \<le> x"
      using Suc.prems by (cases "n = 0") auto
    moreover from Suc.prems have "x \<le> real n * s + s" by (simp add: algebra_simps)
    ultimately show ?thesis by blast
  qed
qed


text \<open>Edges of the cell at a row and column.\<close>

lemma make_cell_bounds:
  "g_bounds (make_cell rid region ls gs r c) =
     \<lparr>north = north (r_bounds region) - real r * ls,
      south = north (r_bounds region) - real r * ls - ls,
      east = west (r_bounds region) + real c * gs + gs,
      west = west (r_bounds region) + real c * gs\<rparr>"
  "g_row (make_cell rid region ls gs r c) = r"
  "g_col (make_cell rid region ls gs r c) = c"
  by (simp_all add: make_cell_def Let_def)

lemma row_edges:
  assumes "0 < s" "real n * s = N - S" "r < n"
  shows "S \<le> N - real r * s - s" and "N - real r * s \<le> N"
proof -
  have "real (Suc r) * s \<le> real n * s"
    using assms by (intro mult_right_mono) (simp_all add: Suc_leI)
  moreover have "real (Suc r) * s = real r * s + s" by (simp add: algebra_simps)
  ultimately show "S \<le> N - real r * s - s" using assms(2) by linarith
  from assms(1) have "0 \<le> real r * s" by simp
  then show "N - real r * s \<le> N" by simp
qed

lemma rows_disjoint:
  assumes "0 < s" "r < r'"
  shows "N - real r' * s \<le> N - real r * s - s"
proof -
  from assms have "real (Suc r) * s \<le> real r' * s"
    by (intro mult_right_mono) (simp_all add: Suc_leI)
  moreover have "real (Suc r) * s = real r * s + s" by (simp add: algebra_simps)
  ultimately show ?thesis by linarith
qed

lemma generate_registered:
  "FOREST_REGIONS region_id = Some region \<Longrightarrow> grid_rows region \<noteq> 0 \<Longrightarrow>
   grid_cols region \<noteq> 0 \<Longrightarrow>
     generate_grids_for_region region_id =
       Inr (concat (map (\<lambda>row. map (make_cell region_id region
                ((north (r_bounds region) - south (r_bounds region)) / real_of_int (grid_rows region))
                ((east (r_bounds region) - west (r_bounds region)) / real_of_int (grid_cols region))
                row) [0..<nat (grid_cols region)])
              [0..<nat (grid_rows region)]))"
  by (simp add: generate_grids_for_region_def Let_def)

lemma grid_tiling:
  fixes N S E W ls gs :: real
  assumes m: "0 < m" and n: "0 < n" and ls: "0 < ls" and gs: "0 < gs"
    and tot_lat: "real m * ls = N - S" and tot_lng: "real n * gs = E - W"
    and rb: "north (r_bounds region) = N" "south (r_bounds region) = S"
      "east (r_bounds region) = E" "west (r_bounds region) = W"
    and cells: "cells = concat (map (\<lambda>row. map (make_cell rid region ls gs row) [0..<n]) [0..<m])"
  shows "(\<forall>lat lng. in_box (r_bounds region) lat lng \<longleftrightarrow>
            (\<exists>cell \<in> set cells. in_box (g_bounds cell) lat lng))"
    and "(\<forall>i j lat lng. i < j \<and> j < length cells \<longrightarrow>
            \<not> (in_interior (g_bounds (cells ! i)) lat lng \<and>
               in_interior (g_bounds (cells ! j)) lat lng))"
proof -
  let ?f = "make_cell rid region ls gs"
  have set_cells: "set cells = {x. \<exists>r c. r < m \<and> c < n \<and> x = ?f r c}"
    unfolding cells by (rule set_grid)
  have len: "length cells = m * n" unfolding cells by (rule length_grid)
  have box: "in_box (g_bounds (?f r c)) lat lng \<longleftrightarrow>
      N - real r * ls - ls \<le> lat \<and> lat \<le> N - real r * ls \<and>
      W + real c * gs \<le> lng \<and> lng \<le> W + real c * gs + gs" for r c lat lng
    by (simp add: in_box_def make_cell_bounds rb)
  have inner: "in_interior (g_bounds (?f r c)) lat lng \<longleftrightarrow>
      N - real r * ls - ls < lat \<and> lat < N - real r * ls \<and>
      W + real c * gs < lng \<and> lng < W + real c * gs + gs" for r c lat lng
    by (simp add: in_interior_def make_cell_bounds rb)
  show "\<forall>lat lng. in_box (r_bounds region) lat lng \<longleftrightarrow>
            (\<exists>cell \<in> set cells. in_box (g_bounds cell) lat lng)"
  proof (intro allI iffI)
    fix lat lng
    assume "in_box (r_bounds region) lat lng"
    then have b: "S \<le> lat" "lat \<le> N" "W \<le> lng" "lng \<le> E"
      by (simp_all add: in_box_def rb)
    from b tot_lat have "0 \<le> N - lat" "N - lat \<le> real m * ls" by simp_all
    with interval_cover [OF m, of ls "N - lat"] ls
    obtain r where r: "r < m" "real r * ls \<le> N - lat" "N - lat \<le> real r * ls + ls"
      by auto
    from b tot_lng have "0 \<le> lng - W" "lng - W \<le> real n * gs" by simp_all
    with interval_cover [OF n, of gs "lng - W"] gs
    obtain c where c: "c < n" "real c * gs \<le> lng - W" "lng - W \<le> real c * gs + gs"
      by auto
    from r c have "in_box (g_bounds (?f r c)) lat lng" unfolding box by linarith
    moreover from r c have "?f r c \<in> set cells" unfolding set_cells by blast
    ultimately show "\<exists>cell \<in> set cells. in_box (g_bounds cell) lat lng" by blast
  next
    fix lat lng
    assume "\<exists>cell \<in> set cells. in_box (g_bounds cell) lat lng"
    then obtain r c where rc: "r < m" "c < n" and ib: "in_box (g_bounds (?f r c)) lat lng"
      unfolding set_cells by blast
    from row_edges [OF ls tot_lat rc(1)]
    have lat_e: "S \<le> N - real r * ls - ls" "N - real r * ls \<le> N" .
    have tot': "real n * gs = (- W) - (- E)" using tot_lng by simp
    from row_edges [OF gs tot' rc(2)]
    have lng_e: "- E \<le> - W - real c * gs - gs" "- W - real c * gs \<le> - W" .
    have nn: "0 \<le> real r * ls" "0 \<le> real c * gs" using ls gs by simp_all
    from ib have ib': "N - real r * ls - ls \<le> lat" "lat \<le> N - real r * ls"
      "W + real c * gs \<le> lng" "lng \<le> W + real c * gs + gs"
      unfolding box by simp_all
    show "in_box (r_bounds region) lat lng"
      unfolding in_box_def rb using ib' lat_e lng_e nn by (intro conjI) linarith+
  qed
  show "\<forall>i j lat lng. i < j \<and> j < length cells \<longrightarrow>
            \<not> (in_interior (g_bounds (cells ! i)) lat lng \<and>
               in_interior (g_bounds (cells ! j)) lat lng)"
  proof (intro allI impI notI)
    fix i j lat lng
    assume ij: "i < j \<and> j < length cells"
      and both: "in_interior (g_bounds (cells ! i)) lat lng \<and>
                 in_interior (g_bounds (cells ! j)) lat lng"
    from ij len have jm: "j < m * n" and im: "i < m * n" by simp_all
    have dj: "j div n < m" using jm n by (simp add: less_mult_imp_div_less)
    have di: "i div n < m" using im n by (simp add: less_mult_imp_div_less)
    have mj: "j mod n < n" and mi: "i mod n < n" using n by simp_all
    have ci: "cells ! i = ?f (i div n) (i mod n)"
      using nth_grid [OF di mi, of ?f] unfolding cells by simp
    have cj: "cells ! j = ?f (j div n) (j mod n)"
      using nth_grid [OF dj mj, of ?f] unfolding cells by simp
    from both have bi: "in_interior (g_bounds (?f (i div n) (i mod n))) lat lng"
      and bj: "in_interior (g_bounds (?f (j div n) (j mod n))) lat lng"
      by (simp_all add: ci cj)
    from ij have "i div n \<le> j div n" by (simp add: div_le_mono)
    then consider "i div n < j div n" | "i div n = j div n" "i mod n < j mod n"
      using ij by (metis div_mult_mod_eq le_neq_implies_less nat_add_left_cancel_less
          nat_neq_iff not_less_iff_gr_or_eq)
    then show False
    proof cases
      case 1
      from rows_disjoint [OF ls 1, of N] bi bj show False unfolding inner by linarith
    next
      case 2
      from rows_disjoint [OF gs 2(2), of "- W"] bi bj show False unfolding inner by linarith
    qed
  qed
qed

text \<open>
  C3. For every registered region the partition succeeds and returns rows times cols
  cells in row-major order; the cell of row r and column c has its north edge at the
  region's north minus r latitude steps, its south edge one step below its north edge,
  its west edge at the region's west plus c longitude steps and its east edge one step
  beyond its west edge. A point lies in the region's box exactly when it lies in the box
  of some cell, and no point lies strictly inside two cells.
\<close>

theorem partition_tiles_region:
  assumes reg: "FOREST_REGIONS region_id = Some region"
  shows "\<exists>cells.
     generate_grids_for_region region_id = Inr cells \<and>
     length cells = nat (grid_rows region) * nat (grid_cols region) \<and>
     (\<forall>r c. r < nat (grid_rows region) \<and> c < nat (grid_cols region) \<longrightarrow>
        (let cell = cells ! (r * nat (grid_cols region) + c);
             latStep = (north (r_bounds region) - south (r_bounds region))
                         / real_of_int (grid_rows region);
             lngStep = (east (r_bounds region) - west (r_bounds region))
                         / real_of_int (grid_cols region)
         in g_row cell = r \<and> g_col cell = c \<and>
            north (g_bounds cell) = north (r_bounds region) - real r * latStep \<and>
            south (g_bounds cell) = north (g_bounds cell) - latStep \<and>
            west (g_bounds cell) = west (r_bounds region) + real c * lngStep \<and>
            east (g_bounds cell) = west (g_bounds cell) + lngStep)) \<and>
     (\<forall>lat lng. in_box (r_bounds region) lat lng \<longleftrightarrow>
        (\<exists>cell \<in> set cells. in_box (g_bounds cell) lat lng)) \<and>
     (\<forall>i j lat lng. i < j \<and> j < length cells \<longrightarrow>
        \<not> (in_interior (g_bounds (cells ! i)) lat lng \<and>
           in_interior (g_bounds (cells ! j)) lat lng))"
proof -
  from registered_regions [OF reg]
  have rows: "grid_rows region = 3" and cols: "grid_cols region = 4"
    and lat: "south (r_bounds region) < north (r_bounds region)"
    and lng: "west (r_bounds region) < east (r_bounds region)" by simp_all
  define m where "m = nat (grid_rows region)"
  define n where "n = nat (grid_cols region)"
  define ls where "ls = (north (r_bounds region) - south (r_bounds region))
                          / real_of_int (grid_rows region)"
  define gs where "gs = (east (r_bounds region) - west (r_bounds region))
                          / real_of_int (grid_cols region)"
  define cells where
    "cells = concat (map (\<lambda>row. map (make_cell region_id region ls gs row) [0..<n]) [0..<m])"
  have m: "0 < m" and n: "0 < n" by (simp_all add: m_def n_def rows cols)
  have ls: "0 < ls" and gs: "0 < gs" using lat lng by (simp_all add: ls_def gs_def rows cols)
  have tot_lat: "real m * ls = north (r_bounds region) - south (r_bounds region)"
    by (simp add: m_def ls_def rows)
  have tot_lng: "real n * gs = east (r_bounds region) - west (r_bounds region)"
    by (simp add: n_def gs_def cols)
  have gen: "generate_grids_for_region region_id = Inr cells"
    unfolding cells_def ls_def gs_def m_def n_def
    by (rule generate_registered [OF reg]) (simp_all add: rows cols)
  have len: "length cells = m * n" unfolding cells_def by (rule length_grid)
  have edges: "g_row (cells ! (r * n + c)) = r \<and> g_col (cells ! (r * n + c)) = c \<and>
      north (g_bounds (cells ! (r * n + c))) = north (r_bounds region) - real r * ls \<and>
      south (g_bounds (cells ! (r * n + c))) = north (g_bounds (cells ! (r * n + c))) - ls \<and>
      west (g_bounds (cells ! (r * n + c))) = west (r_bounds region) + real c * gs \<and>
      east (g_bounds (cells ! (r * n + c))) = west (g_bounds (cells ! (r * n + c))) + gs"
    if "r < m" "c < n" for r c
    using nth_grid [OF that, of "make_cell region_id region ls gs"]
    unfolding cells_def by (simp add: make_cell_bounds)
  note tiling = grid_tiling [OF m n ls gs tot_lat tot_lng refl refl refl refl cells_def]
  show ?thesis
  proof (intro exI [of _ cells] conjI)
    show "generate_grids_for_region region_id = Inr cells" by (rule gen)
    show "length cells = nat (grid_rows region) * nat (grid_cols region)"
      using len by (simp add: m_def n_def)
    show "\<forall>r c. r < nat (grid_rows region) \<and> c < nat (grid_cols region) \<longrightarrow>
        (let cell = cells ! (r * nat (grid_cols region) + c);
             latStep = (north (r_bounds region) - south (r_bounds region))
                         / real_of_int (grid_rows region);
             lngStep = (east (r_bounds region) - west (r_bounds region))
                         / real_of_int (grid_cols region)
         in g_row cell = r \<and> g_col cell = c \<and>
            north (g_bounds cell) = north (r_bounds region) - real r * latStep \<and>
            south (g_bounds cell) = north (g_bounds cell) - latStep \<and>
            west (g_bounds cell) = west (r_bounds region) + real c * lngStep \<and>
            east (g_bounds cell) = west (g_bounds cell) + lngStep)"
      unfolding Let_def using edges unfolding m_def n_def ls_def gs_def by blast
    show "\<forall>lat lng. in_box (r_bounds region) lat lng \<longleftrightarrow>
        (\<exists>cell \<in> set cells. in_box (g_bounds cell) lat lng)"
      by (rule tiling(1))
    show "\<forall>i j lat lng. i < j \<and> j < length cells \<longrightarrow>
        \<not> (in_interior (g_bounds (cells ! i)) lat lng \<and>
           in_interior (g_bounds (cells ! j)) lat lng)"
      by (rule tiling(2))
  qed
qed

lemma amazon_simps:
  "FOREST_REGIONS ''amazon'' = Some amazon_region"
  "grid_rows amazon_region = 3" "grid_cols amazon_region = 4"
  "r_bounds amazon_region = \<lparr>north = - 2, south = - 5, east = - 60, west = - 65\<rparr>"
  by (simp_all add: FOREST_REGIONS_def FOREST_REGIONS_items_def amazon_region_def)

text \<open>
  The Amazon region: twelve cells; the cell of row 1 and column 1 spans latitudes -4 to
  -3 and longitudes -63.75 to -62.5.
\<close>

theorem partition_tiles_region_witness:
  "FOREST_REGIONS ''amazon'' = Some amazon_region \<and>
   (\<exists>cells. generate_grids_for_region ''amazon'' = Inr cells \<and> length cells = 12 \<and>
      g_row (cells ! 5) = 1 \<and> g_col (cells ! 5) = 1 \<and>
      north (g_bounds (cells ! 5)) = - 3 \<and> south (g_bounds (cells ! 5)) = - 4 \<and>
      west (g_bounds (cells ! 5)) = - 63.75 \<and> east (g_bounds (cells ! 5)) = - 62.5 \<and>
      (\<exists>cell \<in> set cells. in_box (g_bounds cell) (- 3.5) (- 63)) \<and>
      \<not> (in_interior (g_bounds (cells ! 0)) (- 3.5) (- 63) \<and>
         in_interior (g_bounds (cells ! 5)) (- 3.5) (- 63)))"
proof -
  note reg = amazon_simps(1)
  from partition_tiles_region [OF reg] obtain cells where
    gen: "generate_grids_for_region ''amazon'' = Inr cells"
    and len: "length cells = nat (grid_rows amazon_region) * nat (grid_cols amazon_region)"
    and edges: "\<forall>r c. r < nat (grid_rows amazon_region) \<and> c < nat (grid_cols amazon_region) \<longrightarrow>
        (let cell = cells ! (r * nat (grid_cols amazon_region) + c);
             latStep = (north (r_bounds amazon_region) - south (r_bounds amazon_region))
                         / real_of_int (grid_rows amazon_region);
             lngStep = (east (r_bounds amazon_region) - west (r_bounds amazon_region))
                         / real_of_int (grid_cols amazon_region)
         in g_row cell = r \<and> g_col cell = c \<and>
            north (g_bounds cell) = north (r_bounds amazon_region) - real r * latStep \<and>
            south (g_bounds cell) = north (g_bounds cell) - latStep \<and>
            west (g_bounds cell) = west (r_bounds amazon_region) + real c * lngStep \<and>
            east (g_bounds cell) = west (g_bounds cell) + lngStep)"
    and cover: "\<forall>lat lng. in_box (r_bounds amazon_region) lat lng \<longleftrightarrow>
        (\<exists>cell \<in> set cells. in_box (g_bounds cell) lat lng)"
    and disj: "\<forall>i j lat lng. i < j \<and> j < length cells \<longrightarrow>
        \<not> (in_interior (g_bounds (cells ! i)) lat lng \<and>
           in_interior (g_bounds (cells ! j)) lat lng)"
    by blast
  from len have len12: "length cells = 12" by (simp add: amazon_simps)
  from edges [rule_format, of 1 1] have e5:
    "g_row (cells ! 5) = 1 \<and> g_col (cells ! 5) = 1 \<and>
      north (g_bounds (cells ! 5)) = - 3 \<and> south (g_bounds (cells ! 5)) = - 4 \<and>
      west (g_bounds (cells ! 5)) = - 63.75 \<and> east (g_bounds (cells ! 5)) = - 62.5"
    by (simp add: amazon_simps Let_def)
  from cover [rule_format, of "- 3.5" "- 63"]
  have c: "\<exists>cell \<in> set cells. in_box (g_bounds cell) (- 3.5) (- 63)"
    by (simp add: amazon_simps in_box_def)
  from disj [rule_format, of 0 5 "- 3.5" "- 63"] len12
  have d: "\<not> (in_interior (g_bounds (cells ! 0)) (- 3.5) (- 63) \<and>
         in_interior (g_bounds (cells ! 5)) (- 3.5) (- 63))" by simp
  from reg gen len12 e5 c d show ?thesis by blast
qed

subsection \<open>Cell areas\<close>

lemma round_half_even_error: "\<bar>of_int (round_half_even y) - y\<bar> \<le> 1 / 2"
proof -
  have "of_int \<lfloor>y\<rfloor> \<le> y" "y < of_int \<lfloor>y\<rfloor> + 1" by linarith+
  then show ?thesis by (auto simp: round_half_even_def Let_def)
qed

lemma py_round_error: "py_round x 2 \<le> x + 1 / 200 \<and> x - 1 / 200 \<le> py_round x 2"
proof -
  have "\<bar>of_int (round_half_even (x * 100)) - x * 100\<bar> \<le> 1 / 2"
    by (rule round_half_even_error)
  then have "of_int (round_half_even (x * 100)) \<le> x * 100 + 1 / 2"
    and "x * 100 - 1 / 2 \<le> of_int (round_half_even (x * 100))" by linarith+
  then have "of_int (round_half_even (x * 100)) / 100 \<le> x + 1 / 200"
    and "x - 1 / 200 \<le> of_int (round_half_even (x * 100)) / 100" by linarith+
  then show ?thesis by (simp add: py_round_def)
qed

lemma cos_degrees: "\<bar>x\<bar> \<le> 60 \<Longrightarrow> 1 / 2 \<le> cos (radians x) \<and> cos (radians x) \<le> 1"
proof -
  assume a: "\<bar>x\<bar> \<le> 60"
  have "\<bar>radians x\<bar> = \<bar>x\<bar> * pi / 180" by (simp add: radians_def abs_mult)
  also have "\<dots> \<le> 60 * pi / 180" using a by (simp add: divide_right_mono mult_right_mono)
  finally have le: "\<bar>radians x\<bar> \<le> pi / 3" by simp
  have "cos (pi / 3) \<le> cos \<bar>radians x\<bar>"
    using le by (intro cos_monotone_0_pi_le) simp_all
  then show ?thesis by (simp add: cos_60)
qed

lemma registered_extent:
  "FOREST_REGIONS region_id = Some region \<Longrightarrow>
     north (r_bounds region) - south (r_bounds region) = 3 \<and>
     3 \<le> east (r_bounds region) - west (r_bounds region) \<and>
     east (r_bounds region) - west (r_bounds region) \<le> 5 \<and>
     - 35 \<le> south (r_bounds region) \<and> north (r_bounds region) \<le> 40"
  by (auto simp: FOREST_REGIONS_def FOREST_REGIONS_items_def split: if_splits)

lemma make_cell_area:
  "area_km2 (make_cell rid region ls gs r c) =
     py_round (calculate_grid_area (g_bounds (make_cell rid region ls gs r c))) 2"
  by (simp add: make_cell_def Let_def)

lemma cell_area_value:
  assumes "0 < gs"
  shows "calculate_grid_area (g_bounds (make_cell rid region 1 gs r c)) =
           12321 * gs * cos (radians (north (r_bounds region) - real r - 1 / 2))"
proof -
  let ?b = "g_bounds (make_cell rid region 1 gs r c)"
  have lat: "\<bar>north ?b - south ?b\<bar> = 1" by (simp add: make_cell_bounds)
  have lng: "\<bar>east ?b - west ?b\<bar> = gs" using assms by (simp add: make_cell_bounds)
  have avg: "(north ?b + south ?b) / 2 = north (r_bounds region) - real r - 1 / 2"
    by (simp add: make_cell_bounds field_simps)
  have "calculate_grid_area ?b =
      \<bar>north ?b - south ?b\<bar> * 111 * \<bar>east ?b - west ?b\<bar>
        * (111 * cos (radians ((north ?b + south ?b) / 2)))"
    by (simp only: calculate_grid_area_def Let_def)
  also have "\<dots> = 1 * 111 * gs
        * (111 * cos (radians (north (r_bounds region) - real r - 1 / 2)))"
    by (simp only: lat lng avg)
  finally show ?thesis by simp
qed

text \<open>
  C9. For every registered region the partition returns at least one cell, and the area
  of every cell, which is the approximation formula on the cell's bounds rounded to two
  decimals, is strictly positive and strictly less than the region's area by the same
  formula on the region's bounds, rounded or not.
\<close>

theorem cell_area_bounds:
  assumes reg: "FOREST_REGIONS region_id = Some region"
  shows "\<exists>cells. generate_grids_for_region region_id = Inr cells \<and> cells \<noteq> [] \<and>
     (\<forall>cell \<in> set cells.
        area_km2 cell = py_round (calculate_grid_area (g_bounds cell)) 2 \<and>
        0 < area_km2 cell \<and>
        area_km2 cell < calculate_grid_area (r_bounds region) \<and>
        area_km2 cell < py_round (calculate_grid_area (r_bounds region)) 2)"
proof -
  from registered_regions [OF reg]
  have rows: "grid_rows region = 3" and cols: "grid_cols region = 4" by simp_all
  from registered_extent [OF reg]
  have ext: "north (r_bounds region) - south (r_bounds region) = 3"
    "3 \<le> east (r_bounds region) - west (r_bounds region)"
    "east (r_bounds region) - west (r_bounds region) \<le> 5"
    "- 35 \<le> south (r_bounds region)" "north (r_bounds region) \<le> 40" by simp_all
  define gs where "gs = (east (r_bounds region) - west (r_bounds region)) / 4"
  define q where "q = 12321 * gs"
  define cells where
    "cells = concat (map (\<lambda>row. map (make_cell region_id region 1 gs row) [0..<4]) [0..<3])"
  have gs: "0 < gs" and q: "9240 \<le> q" using ext by (simp_all add: gs_def q_def)
  have gen: "generate_grids_for_region region_id = Inr cells"
    using generate_registered [OF reg] ext(1) by (simp add: rows cols cells_def gs_def)
  have len: "length cells = 3 * 4" unfolding cells_def by (rule length_grid)
  have region_area: "6 * q \<le> calculate_grid_area (r_bounds region)"
  proof -
    have "\<bar>(north (r_bounds region) + south (r_bounds region)) / 2\<bar> \<le> 60"
      using ext by (simp add: abs_le_iff)
    from cos_degrees [OF this]
    have "1 / 2 \<le> cos (radians ((north (r_bounds region) + south (r_bounds region)) / 2))"
      by simp
    moreover have "calculate_grid_area (r_bounds region) =
        12 * q * cos (radians ((north (r_bounds region) + south (r_bounds region)) / 2))"
      using ext by (simp add: calculate_grid_area_def Let_def q_def gs_def)
    moreover have "0 \<le> 12 * q" using q by simp
    ultimately have "12 * q * (1 / 2) \<le> calculate_grid_area (r_bounds region)"
      by (simp only: mult_left_mono)
    then show ?thesis by simp
  qed
  have each: "area_km2 cell = py_round (calculate_grid_area (g_bounds cell)) 2 \<and>
        0 < area_km2 cell \<and>
        area_km2 cell < calculate_grid_area (r_bounds region) \<and>
        area_km2 cell < py_round (calculate_grid_area (r_bounds region)) 2"
    if "cell \<in> set cells" for cell
  proof -
    from that obtain r c where rc: "r < 3" "c < 4"
      and cell: "cell = make_cell region_id region 1 gs r c"
      unfolding cells_def set_grid by blast
    let ?a = "calculate_grid_area (g_bounds cell)"
    have a: "area_km2 cell = py_round ?a 2" unfolding cell by (rule make_cell_area)
    from rc have "real r \<le> 2" by simp
    then have "\<bar>north (r_bounds region) - real r - 1 / 2\<bar> \<le> 60"
      using ext by (simp add: abs_le_iff)
    from cos_degrees [OF this]
    have cb: "1 / 2 \<le> cos (radians (north (r_bounds region) - real r - 1 / 2))"
      "cos (radians (north (r_bounds region) - real r - 1 / 2)) \<le> 1" by simp_all
    have av: "?a = q * cos (radians (north (r_bounds region) - real r - 1 / 2))"
      unfolding cell q_def by (rule cell_area_value [OF gs])
    have q0: "0 \<le> q" using q by simp
    have lo: "q * (1 / 2) \<le> ?a" unfolding av using cb(1) q0 by (rule mult_left_mono)
    have hi: "?a \<le> q * 1" unfolding av using cb(2) q0 by (rule mult_left_mono)
    from lo q have "of_int 100 / 10 ^ 2 \<le> ?a" by simp
    from py_round_ge [OF this] have pos: "0 < py_round ?a 2" by simp
    have e1: "py_round ?a 2 \<le> ?a + 1 / 200"
      using py_round_error [of ?a] by simp
    have e2: "calculate_grid_area (r_bounds region) - 1 / 200
                \<le> py_round (calculate_grid_area (r_bounds region)) 2"
      using py_round_error [of "calculate_grid_area (r_bounds region)"] by simp
    from e1 hi region_area q have lt1: "py_round ?a 2 < calculate_grid_area (r_bounds region)"
      by linarith
    from e1 e2 hi region_area q
    have lt2: "py_round ?a 2 < py_round (calculate_grid_area (r_bounds region)) 2"
      by linarith
    from a pos lt1 lt2 show ?thesis by simp
  qed
  from len have "cells \<noteq> []" by auto
  with gen each show ?thesis by blast
qed

text \<open>The first cell of the Amazon region.\<close>

theorem cell_area_bounds_witness:
  "FOREST_REGIONS ''amazon'' = Some amazon_region \<and>
   (\<exists>cells. generate_grids_for_region ''amazon'' = Inr cells \<and> hd cells \<in> set cells \<and>
      0 < area_km2 (hd cells) \<and>
      area_km2 (hd cells)
        < calculate_grid_area \<lparr>north = - 2, south = - 5, east = - 60, west = - 65\<rparr>)"
proof -
  note reg = amazon_simps(1)
  from cell_area_bounds [OF reg] obtain cells where
    gen: "generate_grids_for_region ''amazon'' = Inr cells" and ne: "cells \<noteq> []"
    and each: "\<forall>cell \<in> set cells.
        area_km2 cell = py_round (calculate_grid_area (g_bounds cell)) 2 \<and>
        0 < area_km2 cell \<and>
        area_km2 cell < calculate_grid_area (r_bounds amazon_region) \<and>
        area_km2 cell < py_round (calculate_grid_area (r_bounds amazon_region)) 2"
    by blast
  from ne have mem: "hd cells \<in> set cells" by simp
  with each have "0 < area_km2 (hd cells)"
    and "area_km2 (hd cells) < calculate_grid_area (r_bounds amazon_region)" by blast+
  with reg gen mem show ?thesis by (auto simp: amazon_simps)
qed

end
